theory Spec2Isabelle
  imports Complex_Main
begin

section \<open>Errors and results\<close>

text \<open>
  The Python exceptions that the expressions of \<^verbatim>\<open>train_cifar.py\<close> themselves can raise
  (an integer modulo or a division by zero, an index or a key that is missing, a variable
  read before it is bound), the one raised by \<^verbatim>\<open>torch.stack\<close> on a list it cannot
  stack, and the failure of the resume-file lookup. A computation that may raise returns
  \<open>error + 'a\<close>, with \<open>Inl\<close> the exception.
\<close>

datatype error =
    ZeroDivisionError
  | IndexError
  | KeyError string
  | NameError string
  | UnboundLocalError string
  | RuntimeError string
  | ResumeFileNotFound

definition and_then :: "error + 'a \<Rightarrow> ('a \<Rightarrow> error + 'b) \<Rightarrow> error + 'b" where
  "and_then r f = (case r of Inl e \<Rightarrow> Inl e | Inr v \<Rightarrow> f v)"

text \<open>Python's \<^verbatim>\<open>a % b\<close> on integers: it raises for \<open>b = 0\<close>, and is the floored modulo otherwise.\<close>

definition py_mod :: "int \<Rightarrow> int \<Rightarrow> error + int" where
  "py_mod a b = (if b = 0 then Inl ZeroDivisionError else Inr (a mod b))"

section \<open>The mixup loss\<close>

text \<open>
  \<^verbatim>\<open>
  def mixup_criterion(criterion, pred, y_a, y_b, lam):
      return lam * criterion(pred, y_a) + (1 - lam) * criterion(pred, y_b)
  \<close>
  The criterion is \<^verbatim>\<open>nn.CrossEntropyLoss()\<close>, a function of the framework: it is a
  parameter here. Losses are real numbers (the floating-point rounding of the framework
  is not modelled).
\<close>

definition mixup_criterion ::
  "('o \<Rightarrow> 'y \<Rightarrow> real) \<Rightarrow> 'o \<Rightarrow> 'y \<Rightarrow> 'y \<Rightarrow> real \<Rightarrow> real" where
  "mixup_criterion criterion pred y_a y_b lam =
     lam * criterion pred y_a + (1 - lam) * criterion pred y_b"

text \<open>
  The collaborators of the mixup driver. \<open>'m\<close> is the state of the network together with
  its Adam optimizer, \<open>'x\<close> a batch of inputs, \<open>'o\<close> a batch of logits, \<open>'t\<close> a parameter
  tensor. Labels are lists of class ids.
  \<^item> \<open>mc_forward_mixup m x y lam\<close> is \<^verbatim>\<open>model(x, y, mixup_hidden=True, mixup_alpha=alpha, lam=lam)\<close>
    without its first component: the logits and the two label orderings;
  \<^item> \<open>mc_forward m x\<close> is the logits of \<^verbatim>\<open>model.forward(x)\<close>;
  \<^item> \<open>mc_step m x y lam\<close> is the model after \<^verbatim>\<open>optimizer.zero_grad(); loss.backward(); optimizer.step()\<close>
    on that batch;
  \<^item> \<open>mc_predicted o\<close> is the second component of \<^verbatim>\<open>torch.max(outputs.data, 1)\<close>;
  \<^item> \<open>mc_state_dict\<close> is \<^verbatim>\<open>model.state_dict()\<close>.
\<close>

record ('m, 'x, 'o, 't) mixup_collab =
  mc_forward_mixup :: "'m \<Rightarrow> 'x \<Rightarrow> int list \<Rightarrow> real \<Rightarrow> 'o \<times> int list \<times> int list"
  mc_forward :: "'m \<Rightarrow> 'x \<Rightarrow> 'o"
  mc_criterion :: "'o \<Rightarrow> int list \<Rightarrow> real"
  mc_step :: "'m \<Rightarrow> 'x \<Rightarrow> int list \<Rightarrow> real \<Rightarrow> 'm"
  mc_predicted :: "'o \<Rightarrow> int list"
  mc_state_dict :: "'m \<Rightarrow> (string \<rightharpoonup> 't)"

text \<open>
  One batch of the training loop of \<^verbatim>\<open>train_manifold_mixup\<close> (lines 44 to 60). \<open>lam\<close> is the
  draw of \<^verbatim>\<open>np.random.beta(params.alpha, params.alpha)\<close> for this batch. The result is the
  updated model and the loss of the batch, the value that is backpropagated and added to
  \<^verbatim>\<open>train_loss\<close>.
\<close>

definition mixup_batch ::
  "('m, 'x, 'o, 't) mixup_collab \<Rightarrow> 'm \<Rightarrow> 'x \<times> int list \<Rightarrow> real \<Rightarrow> 'm \<times> real" where
  "mixup_batch c model b lam =
     (case b of (input_var, target_var) \<Rightarrow>
        (case mc_forward_mixup c model input_var target_var lam of
           (outputs, target_a, target_b) \<Rightarrow>
             (let loss = mixup_criterion (mc_criterion c) outputs target_a target_b lam
              in (mc_step c model input_var target_var lam, loss))))"

text \<open>
  The loop over the batches of one epoch (line 44): \<open>lams i\<close> is the draw for batch \<open>i\<close>,
  the accumulator is the model and \<^verbatim>\<open>train_loss\<close>. The running accuracy feeds the progress
  line only and is left out.
\<close>

fun mixup_train_epoch ::
  "('m, 'x, 'o, 't) mixup_collab \<Rightarrow> (nat \<Rightarrow> real) \<Rightarrow> nat \<Rightarrow> ('x \<times> int list) list
     \<Rightarrow> 'm \<times> real \<Rightarrow> 'm \<times> real" where
  "mixup_train_epoch c lams batch_idx [] acc = acc"
| "mixup_train_epoch c lams batch_idx (b # bs) (model, train_loss) =
     (case mixup_batch c model b (lams batch_idx) of
        (model', loss) \<Rightarrow>
          mixup_train_epoch c lams (Suc batch_idx) bs (model', train_loss + loss))"

text \<open>The number of positions where two label lists agree: \<^verbatim>\<open>p.eq(t).sum()\<close>.\<close>

definition count_eq :: "int list \<Rightarrow> int list \<Rightarrow> nat" where
  "count_eq p t = length (filter (\<lambda>(a, b). a = b) (zip p t))"

text \<open>
  The evaluation after an epoch of the mixup driver (lines 73 to 90), over the whole
  held-out stream. The result is the pair that is printed. \<^verbatim>\<open>batch_idx\<close> is the variable of
  both loops: with no held-out batch it still holds the last index of the training loop,
  or nothing when that loop had no batch either; and \<^verbatim>\<open>correct\<close> and \<^verbatim>\<open>total\<close> are still the
  integers 0, whose quotient raises.
\<close>

fun mixup_eval_loop ::
  "('m, 'x, 'o, 't) mixup_collab \<Rightarrow> 'm \<Rightarrow> ('x \<times> int list) list \<Rightarrow> real \<times> nat \<times> nat
     \<Rightarrow> real \<times> nat \<times> nat" where
  "mixup_eval_loop c model [] acc = acc"
| "mixup_eval_loop c model ((inputs, targets) # bs) (test_loss, correct, total') =
     (let outputs = mc_forward c model inputs;
          loss = mc_criterion c outputs targets
      in mixup_eval_loop c model bs
           (test_loss + loss, correct + count_eq (mc_predicted c outputs) targets,
            total' + length targets))"

definition mixup_eval ::
  "('m, 'x, 'o, 't) mixup_collab \<Rightarrow> 'm \<Rightarrow> ('x \<times> int list) list \<Rightarrow> ('x \<times> int list) list
     \<Rightarrow> error + real \<times> real" where
  "mixup_eval c model base_loader base_loader_test =
     (case mixup_eval_loop c model base_loader_test (0, 0, 0) of
        (test_loss, correct, total') \<Rightarrow>
          if base_loader_test = [] then
            (if base_loader = [] then Inl (UnboundLocalError ''batch_idx'')
             else Inl ZeroDivisionError)
          else Inr (test_loss / real (length base_loader_test),
                    100 * real correct / real total'))"

section \<open>The rotation augmentation\<close>

text \<open>
  An image \<^verbatim>\<open>x[j]\<close> is a tensor of shape (channels, height, width): a list of channels, each
  a list of rows. \<^verbatim>\<open>t.transpose(2, 1)\<close> swaps height and width, \<^verbatim>\<open>t.flip(1)\<close> reverses the
  order along dimension 1. A nested list stands for a tensor only when it is rectangular
  with no empty dimension (\<open>is_tensor3\<close>); its shape is then \<open>dims3\<close>.
\<close>

type_synonym 'a image = "'a list list list"

definition transpose21 :: "'a image \<Rightarrow> 'a image" where
  "transpose21 t = map transpose t"

definition flip1 :: "'a image \<Rightarrow> 'a image" where
  "flip1 t = map rev t"

definition dims3 :: "'a image \<Rightarrow> nat \<times> nat \<times> nat" where
  "dims3 t =
     (length t,
      (case t of [] \<Rightarrow> 0 | ch # _ \<Rightarrow> length ch),
      (case t of [] \<Rightarrow> 0 | ch # _ \<Rightarrow> (case ch of [] \<Rightarrow> 0 | r # _ \<Rightarrow> length r)))"

definition is_tensor3 :: "nat \<Rightarrow> nat \<Rightarrow> nat \<Rightarrow> 'a image \<Rightarrow> bool" where
  "is_tensor3 C H W t =
     (length t = C \<and> list_all (\<lambda>ch. length ch = H \<and> list_all (\<lambda>r. length r = W) ch) t)"

text \<open>
  \<^verbatim>\<open>torch.stack(ts, 0)\<close> raises on an empty list and on tensors of different shapes;
  otherwise the stacked tensor is the list of its slices. \<open>shape\<close> gives the shape of an
  element.
\<close>

definition torch_stack :: "('s \<Rightarrow> 'd) \<Rightarrow> 's list \<Rightarrow> error + 's list" where
  "torch_stack shape ts =
     (case ts of
        [] \<Rightarrow> Inl (RuntimeError ''stack expects a non-empty TensorList'')
      | t # rest \<Rightarrow>
          if list_all (\<lambda>u. shape u = shape t) rest then Inr ts
          else Inl (RuntimeError ''stack expects each tensor to be equal size''))"

text \<open>
  Lines 128 to 142 (and again 181 to 195): the loop over \<^verbatim>\<open>j in range(bs)\<close>, with
  \<^verbatim>\<open>bs = x.size(0)\<close>, that builds the lists \<^verbatim>\<open>x_\<close>, \<^verbatim>\<open>y_\<close>, \<^verbatim>\<open>a_\<close> (here \<open>x'\<close>, \<open>y'\<close>, \<open>a'\<close>), and the
  three \<^verbatim>\<open>torch.stack\<close> calls. \<^verbatim>\<open>y[j]\<close> raises when \<open>y\<close> has no index \<open>j\<close>.
\<close>

fun rotate_loop ::
  "'a image list \<Rightarrow> int list \<Rightarrow> nat list \<Rightarrow> 'a image list \<times> int list \<times> int list
     \<Rightarrow> error + 'a image list \<times> int list \<times> int list" where
  "rotate_loop x y [] acc = Inr acc"
| "rotate_loop x y (j # js) (x', y', a') =
     (let x90 = flip1 (transpose21 (x ! j));
          x180 = flip1 (transpose21 x90);
          x270 = flip1 (transpose21 x180)
      in if j < length y
         then rotate_loop x y js
                (x' @ [x ! j, x90, x180, x270], y' @ replicate 4 (y ! j), a' @ [0, 1, 2, 3])
         else Inl IndexError)"

definition rotate_batch ::
  "'a image list \<Rightarrow> int list \<Rightarrow> error + 'a image list \<times> int list \<times> int list" where
  "rotate_batch x y =
     and_then (rotate_loop x y [0..<length x] ([], [], [])) (\<lambda>(x', y', a').
     and_then (torch_stack dims3 x') (\<lambda>sx.
     and_then (torch_stack (\<lambda>_. ()) y') (\<lambda>sy.
     and_then (torch_stack (\<lambda>_. ()) a') (\<lambda>sa. Inr (sx, sy, sa)))))"

text \<open>One application of \<^verbatim>\<open>.transpose(2, 1).flip(1)\<close>, and the four images made from one.\<close>

definition rot :: "'a image \<Rightarrow> 'a image" where
  "rot t = flip1 (transpose21 t)"

definition rotations :: "'a image \<Rightarrow> 'a image list" where
  "rotations t = [t, rot t, rot (rot t), rot (rot (rot t))]"

section \<open>The rotation driver: one batch, and the evaluation\<close>

text \<open>
  The collaborators of the rotation driver. \<open>'m\<close> is the backbone, \<open>'h\<close> the auxiliary head
  \<^verbatim>\<open>rotate_classifier\<close> (each with its share of the optimizer), \<open>'f\<close> a batch of embeddings,
  \<open>'o\<close> a batch of logits, \<open>'t\<close> a parameter tensor.
  \<^item> \<open>rc_forward m x\<close> is \<^verbatim>\<open>model.forward(x)\<close>: embeddings and class logits;
  \<^item> \<open>rc_head h f\<close> is \<^verbatim>\<open>rotate_classifier(f)\<close>;
  \<^item> \<open>rc_lossfn\<close> is \<^verbatim>\<open>nn.CrossEntropyLoss()\<close>;
  \<^item> \<open>rc_step m h x y a\<close> is the backbone and the head after
    \<^verbatim>\<open>optimizer.zero_grad(); loss.backward(); optimizer.step()\<close> on the augmented batch;
  \<^item> \<open>rc_argmax\<close> is \<^verbatim>\<open>torch.argmax(_, 1)\<close>;
  \<^item> \<open>rc_state_dict\<close>, \<open>rc_head_state_dict\<close> are the two \<^verbatim>\<open>state_dict()\<close>;
  \<^item> \<open>rc_new_head d\<close> is a freshly initialised \<^verbatim>\<open>nn.Sequential(nn.Linear(d, 4))\<close>;
  \<^item> \<open>rc_head_load h s\<close> is the head after \<^verbatim>\<open>rotate_classifier.load_state_dict(s)\<close>.
\<close>

record ('m, 'h, 'a, 'f, 'o, 't) rot_collab =
  rc_forward :: "'m \<Rightarrow> 'a image list \<Rightarrow> 'f \<times> 'o"
  rc_head :: "'h \<Rightarrow> 'f \<Rightarrow> 'o"
  rc_lossfn :: "'o \<Rightarrow> int list \<Rightarrow> real"
  rc_step :: "'m \<Rightarrow> 'h \<Rightarrow> 'a image list \<Rightarrow> int list \<Rightarrow> int list \<Rightarrow> 'm \<times> 'h"
  rc_argmax :: "'o \<Rightarrow> int list"
  rc_state_dict :: "'m \<Rightarrow> (string \<rightharpoonup> 't)"
  rc_head_state_dict :: "'h \<Rightarrow> (string \<rightharpoonup> 't)"
  rc_new_head :: "nat \<Rightarrow> 'h"
  rc_head_load :: "'h \<Rightarrow> (string \<rightharpoonup> 't) \<Rightarrow> 'h"

text \<open>
  The losses of one batch (lines 149 to 155): \<^verbatim>\<open>closs\<close>, \<^verbatim>\<open>rloss\<close> and the \<^verbatim>\<open>loss\<close> on which
  \<^verbatim>\<open>backward()\<close> is called.
\<close>

record rot_losses =
  rl_closs :: real
  rl_rloss :: real
  rl_loss :: real

definition rotation_losses ::
  "('m, 'h, 'a, 'f, 'o, 't) rot_collab \<Rightarrow> 'm \<Rightarrow> 'h \<Rightarrow> 'a image list \<Rightarrow> int list \<Rightarrow> int list
     \<Rightarrow> rot_losses" where
  "rotation_losses c model rotate_classifier x' y' a' =
     (case rc_forward c model x' of
        (f, scores) \<Rightarrow>
          (let rotate_scores = rc_head c rotate_classifier f;
               rloss = rc_lossfn c rotate_scores a';
               closs = rc_lossfn c scores y';
               loss = 0.5 * closs + 0.5 * rloss
           in \<lparr>rl_closs = closs, rl_rloss = rloss, rl_loss = loss\<rparr>))"

text \<open>One batch of the training loop of \<^verbatim>\<open>train_rotation\<close> (lines 127 to 160).\<close>

definition rotation_batch ::
  "('m, 'h, 'a, 'f, 'o, 't) rot_collab \<Rightarrow> 'm \<times> 'h \<Rightarrow> 'a image list \<times> int list
     \<Rightarrow> error + ('m \<times> 'h) \<times> rot_losses" where
  "rotation_batch c mh b =
     (case (mh, b) of ((model, rotate_classifier), (x, y)) \<Rightarrow>
        and_then (rotate_batch x y) (\<lambda>(x', y', a').
          Inr (rc_step c model rotate_classifier x' y' a',
               rotation_losses c model rotate_classifier x' y' a')))"

fun rotation_train_epoch ::
  "('m, 'h, 'a, 'f, 'o, 't) rot_collab \<Rightarrow> ('a image list \<times> int list) list
     \<Rightarrow> ('m \<times> 'h) \<times> real \<times> real \<Rightarrow> error + ('m \<times> 'h) \<times> real \<times> real" where
  "rotation_train_epoch c [] acc = Inr acc"
| "rotation_train_epoch c (b # bs) (mh, avg_loss, avg_rloss) =
     (case rotation_batch c mh b of
        Inl e \<Rightarrow> Inl e
      | Inr (mh', l) \<Rightarrow>
          rotation_train_epoch c bs (mh', avg_loss + rl_closs l, avg_rloss + rl_rloss l))"

text \<open>
  The evaluation after an epoch (lines 177 to 211). The counters are \<^verbatim>\<open>correct\<close>, \<^verbatim>\<open>rcorrect\<close>
  and \<^verbatim>\<open>total\<close>. \<open>rotation_eval_batch\<close> is what an augmented batch adds to them (lines 201 to
  207). The loop runs over every held-out batch with its index \<open>i\<close>, and its body is
  guarded by \<^verbatim>\<open>if i < 10\<close>. The print after the loop divides by \<^verbatim>\<open>total\<close>.
\<close>

record rot_eval =
  ev_correct :: nat
  ev_rcorrect :: nat
  ev_total :: nat

definition rotation_eval_batch ::
  "('m, 'h, 'a, 'f, 'o, 't) rot_collab \<Rightarrow> 'm \<Rightarrow> 'h \<Rightarrow> 'a image list \<Rightarrow> int list \<Rightarrow> int list
     \<Rightarrow> rot_eval \<Rightarrow> rot_eval" where
  "rotation_eval_batch c model rotate_classifier x' y' a' acc =
     (case rc_forward c model x' of
        (f, scores) \<Rightarrow>
          (let rotate_scores = rc_head c rotate_classifier f;
               p1 = rc_argmax c scores;
               p2 = rc_argmax c rotate_scores
           in \<lparr>ev_correct = ev_correct acc + count_eq p1 y',
               ev_rcorrect = ev_rcorrect acc + count_eq p2 a',
               ev_total = ev_total acc + length p1\<rparr>))"

fun rotation_eval_loop ::
  "('m, 'h, 'a, 'f, 'o, 't) rot_collab \<Rightarrow> 'm \<Rightarrow> 'h \<Rightarrow> nat \<Rightarrow> ('a image list \<times> int list) list
     \<Rightarrow> rot_eval \<Rightarrow> error + rot_eval" where
  "rotation_eval_loop c model rotate_classifier i [] acc = Inr acc"
| "rotation_eval_loop c model rotate_classifier i ((x, y) # bs) acc =
     (if i < 10 then
        (case rotate_batch x y of
           Inl e \<Rightarrow> Inl e
         | Inr (x', y', a') \<Rightarrow>
             rotation_eval_loop c model rotate_classifier (Suc i) bs
               (rotation_eval_batch c model rotate_classifier x' y' a' acc))
      else rotation_eval_loop c model rotate_classifier (Suc i) bs acc)"

definition rotation_eval ::
  "('m, 'h, 'a, 'f, 'o, 't) rot_collab \<Rightarrow> 'm \<Rightarrow> 'h \<Rightarrow> ('a image list \<times> int list) list
     \<Rightarrow> error + rot_eval" where
  "rotation_eval c model rotate_classifier base_loader_test =
     (case rotation_eval_loop c model rotate_classifier 0 base_loader_test
             \<lparr>ev_correct = 0, ev_rcorrect = 0, ev_total = 0\<rparr> of
        Inl e \<Rightarrow> Inl e
      | Inr acc \<Rightarrow> if ev_total acc = 0 then Inl ZeroDivisionError else Inr acc)"

section \<open>Checkpoints and the two epoch loops\<close>

text \<open>
  A checkpoint record is the dictionary given to \<^verbatim>\<open>torch.save\<close>: the keys \<^verbatim>\<open>'epoch'\<close> and
  \<^verbatim>\<open>'state'\<close>, and \<^verbatim>\<open>'rotate'\<close> in the records of the rotation driver. A state dictionary maps
  parameter names to tensors. The checkpoint directory maps the epoch \<open>k\<close> of the file name
  \<^verbatim>\<open>'{:d}.tar'.format(k)\<close> to the record stored under it: \<^verbatim>\<open>torch.save\<close> and \<^verbatim>\<open>torch.load\<close>
  are the framework's, and are taken to store and return a record unchanged.
\<close>

type_synonym 't state_dict = "string \<rightharpoonup> 't"

record 't ckpt =
  ck_epoch :: int
  ck_state :: "'t state_dict"
  ck_rotate :: "'t state_dict option"

text \<open>
  What a driver has done to the world outside it: the checkpoint directory \<open>w_files\<close>, the
  calls of \<^verbatim>\<open>torch.save\<close> in order (\<open>w_saved\<close>: file epoch and record) and the epochs whose
  training loop has run (\<open>w_trained\<close>). A run returns its value, or the exception that ended
  it, together with the world as it was left: a file that was written stays written when
  a later statement raises.
\<close>

record 't world =
  w_files :: "int \<rightharpoonup> 't ckpt"
  w_saved :: "(int \<times> 't ckpt) list"
  w_trained :: "int list"

definition torch_save :: "'t ckpt \<Rightarrow> int \<Rightarrow> 't world \<Rightarrow> 't world" where
  "torch_save r k w = w\<lparr>w_files := (w_files w)(k \<mapsto> r), w_saved := w_saved w @ [(k, r)]\<rparr>"

text \<open>
  \<open>resume_file\<close> is the result of \<^verbatim>\<open>get_resume_file\<close> (of \<^verbatim>\<open>io_utils\<close>): the epoch of the file it
  selects, if it finds one. Loading a file that is not there aborts the program.
\<close>

definition torch_load :: "(int \<rightharpoonup> 't ckpt) \<Rightarrow> int option \<Rightarrow> error + 't ckpt" where
  "torch_load files resume_file =
     (case resume_file of
        None \<Rightarrow> Inl ResumeFileNotFound
      | Some k \<Rightarrow> (case files k of None \<Rightarrow> Inl ResumeFileNotFound | Some r \<Rightarrow> Inr r))"

text \<open>The command-line parameters that \<^verbatim>\<open>train_cifar.py\<close> reads.\<close>

record params =
  p_model :: string
  p_method :: string
  p_start_epoch :: int
  p_stop_epoch :: int
  p_save_freq :: int
  p_resume :: bool

text \<open>Lines 69 and 170: \<^verbatim>\<open>(epoch % params.save_freq == 0) or (epoch == stop_epoch - 1)\<close>.\<close>

definition save_due :: "int \<Rightarrow> int \<Rightarrow> int \<Rightarrow> error + bool" where
  "save_due save_freq epoch stop_epoch =
     and_then (py_mod epoch save_freq) (\<lambda>r. Inr (r = 0 \<or> epoch = stop_epoch - 1))"

text \<open>
  \<^verbatim>\<open>train_manifold_mixup\<close>: the loop \<^verbatim>\<open>for epoch in range(start_epoch, stop_epoch)\<close> (lines 34
  to 92). \<open>lams epoch i\<close> is the draw of \<open>lam\<close> for batch \<open>i\<close> of that epoch. In an epoch the
  batches are trained on (lines 44 to 64), then the checkpoint is written if it is due
  (lines 69 to 71), then the model is evaluated (lines 73 to 90). The function returns the
  model.
\<close>

function mixup_epochs ::
  "('m, 'x, 'o, 't) mixup_collab \<Rightarrow> (int \<Rightarrow> nat \<Rightarrow> real) \<Rightarrow> ('x \<times> int list) list
     \<Rightarrow> ('x \<times> int list) list \<Rightarrow> int \<Rightarrow> int \<Rightarrow> int \<Rightarrow> 'm \<Rightarrow> 't world
     \<Rightarrow> (error + 'm) \<times> 't world" where
  "mixup_epochs c lams base_loader base_loader_test save_freq stop_epoch epoch model w =
     (if epoch < stop_epoch then
        (case mixup_train_epoch c (lams epoch) 0 base_loader (model, 0) of
           (model', train_loss) \<Rightarrow>
             (case save_due save_freq epoch stop_epoch of
                Inl e \<Rightarrow> (Inl e, w\<lparr>w_trained := w_trained w @ [epoch]\<rparr>)
              | Inr due \<Rightarrow>
                  (case mixup_eval c model' base_loader base_loader_test of
                     Inl e \<Rightarrow>
                       (Inl e,
                        (if due
                         then torch_save
                                \<lparr>ck_epoch = epoch, ck_state = mc_state_dict c model',
                                 ck_rotate = None\<rparr> epoch
                         else id)
                          (w\<lparr>w_trained := w_trained w @ [epoch]\<rparr>))
                   | Inr printed \<Rightarrow>
                       mixup_epochs c lams base_loader base_loader_test save_freq stop_epoch
                         (epoch + 1) model'
                         ((if due
                           then torch_save
                                  \<lparr>ck_epoch = epoch, ck_state = mc_state_dict c model',
                                   ck_rotate = None\<rparr> epoch
                           else id)
                            (w\<lparr>w_trained := w_trained w @ [epoch]\<rparr>)))))
      else (Inr model, w))"
  by pat_completeness auto
termination
  by (relation "measure (\<lambda>(c, lams, bl, blt, save_freq, stop_epoch, epoch, model, w).
                  nat (stop_epoch - epoch))") auto

definition train_manifold_mixup ::
  "('m, 'x, 'o, 't) mixup_collab \<Rightarrow> (int \<Rightarrow> nat \<Rightarrow> real) \<Rightarrow> ('x \<times> int list) list
     \<Rightarrow> ('x \<times> int list) list \<Rightarrow> 'm \<Rightarrow> int \<Rightarrow> int \<Rightarrow> params \<Rightarrow> (int \<rightharpoonup> 't ckpt)
     \<Rightarrow> (error + 'm) \<times> 't world" where
  "train_manifold_mixup c lams base_loader base_loader_test model start_epoch stop_epoch
       params files =
     mixup_epochs c lams base_loader base_loader_test (p_save_freq params) stop_epoch
       start_epoch model \<lparr>w_files = files, w_saved = [], w_trained = []\<rparr>"

text \<open>
  \<^verbatim>\<open>train_rotation\<close>, lines 98 to 113: the head is chosen by \<^verbatim>\<open>params.model\<close> in an
  \<^verbatim>\<open>if/elif\<close> with no \<^verbatim>\<open>else\<close>, so the local variable \<^verbatim>\<open>rotate_classifier\<close> may stay unbound
  (\<open>None\<close>); it is read by \<^verbatim>\<open>rotate_classifier.cuda()\<close> when there is a GPU, by
  \<^verbatim>\<open>load_state_dict\<close> when \<^verbatim>\<open>tmp\<close> has a \<^verbatim>\<open>'rotate'\<close> entry, and by the construction of the
  optimizer.
\<close>

definition read_local :: "string \<Rightarrow> 'v option \<Rightarrow> error + 'v" where
  "read_local name v = (case v of None \<Rightarrow> Inl (UnboundLocalError name) | Some a \<Rightarrow> Inr a)"

definition read_global :: "string \<Rightarrow> 'v option \<Rightarrow> error + 'v" where
  "read_global name v = (case v of None \<Rightarrow> Inl (NameError name) | Some a \<Rightarrow> Inr a)"

definition rotate_classifier_dispatch ::
  "('m, 'h, 'a, 'f, 'o, 't) rot_collab \<Rightarrow> params \<Rightarrow> 'h option" where
  "rotate_classifier_dispatch c params =
     (if p_model params = ''WideResNet28_10'' then Some (rc_new_head c 640)
      else if p_model params = ''ResNet18'' then Some (rc_new_head c 512)
      else None)"

definition rotate_classifier_init ::
  "('m, 'h, 'a, 'f, 'o, 't) rot_collab \<Rightarrow> params \<Rightarrow> bool \<Rightarrow> 't ckpt option \<Rightarrow> error + 'h" where
  "rotate_classifier_init c params use_gpu tmp =
     (let rotate_classifier = rotate_classifier_dispatch c params
      in and_then (if use_gpu
                   then and_then (read_local ''rotate_classifier'' rotate_classifier)
                          (\<lambda>_. Inr ())
                   else Inr ()) (\<lambda>_.
         and_then (case tmp of
                     None \<Rightarrow> Inr rotate_classifier
                   | Some t \<Rightarrow>
                       (case ck_rotate t of
                          None \<Rightarrow> Inr rotate_classifier
                        | Some s \<Rightarrow>
                            and_then (read_local ''rotate_classifier'' rotate_classifier)
                              (\<lambda>h. Inr (Some (rc_head_load c h s))))) (\<lambda>rotate_classifier.
         read_local ''rotate_classifier'' rotate_classifier)))"

text \<open>
  The loop \<^verbatim>\<open>for epoch in range(start_epoch, stop_epoch)\<close> of \<^verbatim>\<open>train_rotation\<close> (lines 120 to
  213), on the backbone and the head: the batches are trained on (lines 127 to 164), then
  the checkpoint is written if it is due (lines 170 to 172), then the evaluation runs
  (lines 177 to 211). When a batch of the training loop cannot be augmented the run ends
  there, with the world as the epochs before left it.
\<close>

function rotation_epochs ::
  "('m, 'h, 'a, 'f, 'o, 't) rot_collab \<Rightarrow> ('a image list \<times> int list) list
     \<Rightarrow> ('a image list \<times> int list) list \<Rightarrow> int \<Rightarrow> int \<Rightarrow> int \<Rightarrow> 'm \<times> 'h \<Rightarrow> 't world
     \<Rightarrow> (error + 'm \<times> 'h) \<times> 't world" where
  "rotation_epochs c base_loader base_loader_test save_freq stop_epoch epoch mh w =
     (if epoch < stop_epoch then
        (case rotation_train_epoch c base_loader (mh, 0, 0) of
           Inl e \<Rightarrow> (Inl e, w)
         | Inr (mh', avg_loss, avg_rloss) \<Rightarrow>
             (case save_due save_freq epoch stop_epoch of
                Inl e \<Rightarrow> (Inl e, w\<lparr>w_trained := w_trained w @ [epoch]\<rparr>)
              | Inr due \<Rightarrow>
                  (case rotation_eval c (fst mh') (snd mh') base_loader_test of
                     Inl e \<Rightarrow>
                       (Inl e,
                        (if due
                         then torch_save
                                \<lparr>ck_epoch = epoch, ck_state = rc_state_dict c (fst mh'),
                                 ck_rotate = Some (rc_head_state_dict c (snd mh'))\<rparr> epoch
                         else id)
                          (w\<lparr>w_trained := w_trained w @ [epoch]\<rparr>))
                   | Inr printed \<Rightarrow>
                       rotation_epochs c base_loader base_loader_test save_freq stop_epoch
                         (epoch + 1) mh'
                         ((if due
                           then torch_save
                                  \<lparr>ck_epoch = epoch, ck_state = rc_state_dict c (fst mh'),
                                   ck_rotate = Some (rc_head_state_dict c (snd mh'))\<rparr> epoch
                           else id)
                            (w\<lparr>w_trained := w_trained w @ [epoch]\<rparr>)))))
      else (Inr mh, w))"
  by pat_completeness auto
termination
  by (relation "measure (\<lambda>(c, bl, blt, save_freq, stop_epoch, epoch, mh, w).
                  nat (stop_epoch - epoch))") auto

text \<open>
  \<^verbatim>\<open>train_rotation\<close> as a whole. It returns the backbone (\<^verbatim>\<open>return model\<close>); the head lives on
  in the checkpoints only.
\<close>

definition train_rotation ::
  "('m, 'h, 'a, 'f, 'o, 't) rot_collab \<Rightarrow> bool \<Rightarrow> ('a image list \<times> int list) list
     \<Rightarrow> ('a image list \<times> int list) list \<Rightarrow> 'm \<Rightarrow> int \<Rightarrow> int \<Rightarrow> params \<Rightarrow> 't ckpt option
     \<Rightarrow> (int \<rightharpoonup> 't ckpt) \<Rightarrow> (error + 'm) \<times> 't world" where
  "train_rotation c use_gpu base_loader base_loader_test model start_epoch stop_epoch
       params tmp files =
     (case rotate_classifier_init c params use_gpu tmp of
        Inl e \<Rightarrow> (Inl e, \<lparr>w_files = files, w_saved = [], w_trained = []\<rparr>)
      | Inr rotate_classifier \<Rightarrow>
          (case rotation_epochs c base_loader base_loader_test (p_save_freq params) stop_epoch
                  start_epoch (model, rotate_classifier)
                  \<lparr>w_files = files, w_saved = [], w_trained = []\<rparr> of
             (r, w) \<Rightarrow> (and_then r (\<lambda>mh. Inr (fst mh)), w)))"

section \<open>The entry point\<close>

text \<open>
  Lines 253 and 254, on the state dictionary of the loaded record:
  \<^verbatim>\<open>
  state['module.linear.L.weight_g'] = state['module.linear.weight']
  state['module.linear.L.weight_v'] = state['module.linear.bias']
  \<close>
  Reading a key that is missing raises.
\<close>

definition dict_get :: "'t state_dict \<Rightarrow> string \<Rightarrow> error + 't" where
  "dict_get d k = (case d k of None \<Rightarrow> Inl (KeyError k) | Some v \<Rightarrow> Inr v)"

definition remap_linear :: "'t state_dict \<Rightarrow> error + 't state_dict" where
  "remap_linear state =
     and_then (dict_get state ''module.linear.weight'') (\<lambda>w.
       (let state1 = state(''module.linear.L.weight_g'' \<mapsto> w)
        in and_then (dict_get state1 ''module.linear.bias'') (\<lambda>b.
             Inr (state1(''module.linear.L.weight_v'' \<mapsto> b)))))"

text \<open>
  What the entry point takes from outside the file: whether there is a GPU and how many,
  the two backbone constructors, \<^verbatim>\<open>torch.nn.DataParallel\<close>, \<^verbatim>\<open>model.load_state_dict\<close> (which
  may raise), and for the checkpoint directory of the run and for the directory of the
  rotation run of the same model the files and the file that \<^verbatim>\<open>get_resume_file\<close> selects.
  Moving a model to the GPU (\<^verbatim>\<open>.cuda()\<close>) is modelled only as a read of the variable.
\<close>

record ('m, 't) main_env =
  e_use_gpu :: bool
  e_device_count :: nat
  e_wrn28_10 :: 'm
  e_resnet18 :: 'm
  e_data_parallel :: "'m \<Rightarrow> 'm"
  e_load_state_dict :: "'m \<Rightarrow> 't state_dict \<Rightarrow> error + 'm"
  e_resume_file :: "int option"
  e_files :: "int \<rightharpoonup> 't ckpt"
  e_rotation_resume_file :: "int option"
  e_rotation_files :: "int \<rightharpoonup> 't ckpt"

text \<open>
  How the program ends when nothing is raised: after one of the two drivers, with the model
  it returned, or after neither.
\<close>

datatype 'm outcome =
    MixupRun 'm
  | RotationRun 'm
  | NoRun

text \<open>Lines 235 to 238: the model is chosen in an \<^verbatim>\<open>if/elif\<close> with no \<^verbatim>\<open>else\<close>.\<close>

definition model_dispatch :: "('m, 't) main_env \<Rightarrow> params \<Rightarrow> 'm option" where
  "model_dispatch env params =
     (if p_model params = ''WideResNet28_10'' then Some (e_wrn28_10 env)
      else if p_model params = ''ResNet18'' then Some (e_resnet18 env)
      else None)"

text \<open>
  Lines 245 to 285, the two resume paths of the mixup regimen; the result is the loaded
  model and \<^verbatim>\<open>start_epoch\<close>.
\<close>

definition s2m2_resume ::
  "('m, 'x, 'o, 't) mixup_collab \<Rightarrow> ('m, 't) main_env \<Rightarrow> params \<Rightarrow> 'm \<Rightarrow> error + 'm \<times> int" where
  "s2m2_resume mc env params model =
     (if p_resume params then
        and_then (torch_load (e_files env) (e_resume_file env)) (\<lambda>tmp.
          (let start_epoch = ck_epoch tmp + 1;
               state = ck_state tmp
           in and_then (remap_linear state) (\<lambda>state.
                (let model_dict_load = mc_state_dict mc model ++ state
                 in and_then (e_load_state_dict env model model_dict_load) (\<lambda>model.
                      Inr (model, start_epoch))))))
      else
        and_then (torch_load (e_rotation_files env) (e_rotation_resume_file env)) (\<lambda>tmp.
          (let start_epoch = ck_epoch tmp + 1;
               state = ck_state tmp
           in and_then (e_load_state_dict env model state) (\<lambda>model.
                Inr (model, start_epoch)))))"

text \<open>Lines 292 to 304, the preparation of the rotation regimen.\<close>

definition rotation_resume ::
  "('m, 't) main_env \<Rightarrow> params \<Rightarrow> 'm option \<Rightarrow> int \<Rightarrow> error + 'm option \<times> int" where
  "rotation_resume env params model start_epoch =
     and_then
       (if e_use_gpu env then
          and_then
            (if 1 < e_device_count env
             then and_then (read_global ''model'' model)
                    (\<lambda>m. Inr (Some (e_data_parallel env m)))
             else Inr model) (\<lambda>model.
          and_then (read_global ''model'' model) (\<lambda>m. Inr (Some m)))
        else Inr model) (\<lambda>model.
     if p_resume params then
       and_then (torch_load (e_files env) (e_resume_file env)) (\<lambda>tmp.
         (let start_epoch = ck_epoch tmp + 1;
              state = ck_state tmp
          in and_then (read_global ''model'' model) (\<lambda>m.
             and_then (e_load_state_dict env m state) (\<lambda>m.
               Inr (Some m, start_epoch)))))
     else Inr (model, start_epoch))"

text \<open>
  The block under \<^verbatim>\<open>if __name__ == '__main__'\<close> (lines 219 to 306). The data loaders are
  given; line 220 sets \<^verbatim>\<open>params.resume = True\<close> whatever the command line says. The result
  is how the program ends, with the checkpoint directory as it leaves it.
\<close>

definition main ::
  "('m, 'a image list, 'o, 't) mixup_collab \<Rightarrow> ('m, 'h, 'a, 'f, 'o, 't) rot_collab
     \<Rightarrow> (int \<Rightarrow> nat \<Rightarrow> real) \<Rightarrow> ('m, 't) main_env \<Rightarrow> ('a image list \<times> int list) list
     \<Rightarrow> ('a image list \<times> int list) list \<Rightarrow> params \<Rightarrow> (error + 'm outcome) \<times> 't world" where
  "main mc rc lams env base_loader base_loader_test params0 =
     (let params = params0\<lparr>p_resume := True\<rparr>;
          start_epoch = p_start_epoch params;
          stop_epoch = p_stop_epoch params;
          model = model_dispatch env params;
          w0 = \<lparr>w_files = e_files env, w_saved = [], w_trained = []\<rparr>
      in if p_method params = ''S2M2_R'' then
           (case and_then (read_global ''model'' model)
                   (\<lambda>m. s2m2_resume mc env params (e_data_parallel env m)) of
              Inl e \<Rightarrow> (Inl e, w0)
            | Inr (model, start_epoch) \<Rightarrow>
                (case train_manifold_mixup mc lams base_loader base_loader_test model
                        start_epoch (start_epoch + stop_epoch) params (e_files env) of
                   (r, w) \<Rightarrow> (and_then r (\<lambda>m. Inr (MixupRun m)), w)))
         else if p_method params = ''rotation'' then
           (case and_then (rotation_resume env params model start_epoch)
                   (\<lambda>(model, start_epoch).
                      and_then (read_global ''model'' model) (\<lambda>m. Inr (m, start_epoch))) of
              Inl e \<Rightarrow> (Inl e, w0)
            | Inr (model, start_epoch) \<Rightarrow>
                (case train_rotation rc (e_use_gpu env) base_loader base_loader_test model
                        start_epoch stop_epoch params None (e_files env) of
                   (r, w) \<Rightarrow> (and_then r (\<lambda>m. Inr (RotationRun m)), w)))
         else (Inr NoRun, w0))"

section \<open>Notions used to state the results\<close>

text \<open>
  A batch as the data loader yields it for the rotation driver: at least one image, one
  label per image, every image a tensor of \<open>C\<close> channels of \<open>S\<close> by \<open>S\<close> pixels.
\<close>

definition wf_batch :: "nat \<Rightarrow> nat \<Rightarrow> 'a image list \<times> int list \<Rightarrow> bool" where
  "wf_batch C S b =
     (case b of (x, y) \<Rightarrow> x \<noteq> [] \<and> length y = length x \<and> list_all (is_tensor3 C S S) x)"

text \<open>The save condition of an epoch, for a save frequency that is not zero.\<close>

definition due :: "int \<Rightarrow> int \<Rightarrow> int \<Rightarrow> bool" where
  "due save_freq stop_epoch k = (k mod save_freq = 0 \<or> k = stop_epoch - 1)"

text \<open>
  The model after the training loop of one epoch of the mixup driver, after the epochs
  \<open>start\<close> to \<open>k\<close>, and the record that describes it.
\<close>

definition mixup_step ::
  "('m, 'x, 'o, 't) mixup_collab \<Rightarrow> (int \<Rightarrow> nat \<Rightarrow> real) \<Rightarrow> ('x \<times> int list) list \<Rightarrow> int
     \<Rightarrow> 'm \<Rightarrow> 'm" where
  "mixup_step c lams base_loader epoch model =
     fst (mixup_train_epoch c (lams epoch) 0 base_loader (model, 0))"

definition mixup_model_after ::
  "('m, 'x, 'o, 't) mixup_collab \<Rightarrow> (int \<Rightarrow> nat \<Rightarrow> real) \<Rightarrow> ('x \<times> int list) list \<Rightarrow> int
     \<Rightarrow> 'm \<Rightarrow> int \<Rightarrow> 'm" where
  "mixup_model_after c lams base_loader start model k =
     fold (mixup_step c lams base_loader) [start..k] model"

definition mixup_record ::
  "('m, 'x, 'o, 't) mixup_collab \<Rightarrow> (int \<Rightarrow> nat \<Rightarrow> real) \<Rightarrow> ('x \<times> int list) list \<Rightarrow> int
     \<Rightarrow> 'm \<Rightarrow> int \<Rightarrow> 't ckpt" where
  "mixup_record c lams base_loader start model k =
     \<lparr>ck_epoch = k,
      ck_state = mc_state_dict c (mixup_model_after c lams base_loader start model k),
      ck_rotate = None\<rparr>"

text \<open>
  The same for the rotation driver: the backbone and the head after the batches of one
  epoch, each batch augmented to its four rotations.
\<close>

definition rotation_step ::
  "('m, 'h, 'a, 'f, 'o, 't) rot_collab \<Rightarrow> ('a image list \<times> int list) list \<Rightarrow> 'm \<times> 'h
     \<Rightarrow> 'm \<times> 'h" where
  "rotation_step c base_loader mh =
     fold (\<lambda>(x, y) (m, h).
             rc_step c m h (concat (map rotations x)) (concat (map (replicate 4) y))
               (concat (map (\<lambda>_. [0, 1, 2, 3]) x)))
       base_loader mh"

definition rotation_model_after ::
  "('m, 'h, 'a, 'f, 'o, 't) rot_collab \<Rightarrow> ('a image list \<times> int list) list \<Rightarrow> int
     \<Rightarrow> 'm \<times> 'h \<Rightarrow> int \<Rightarrow> 'm \<times> 'h" where
  "rotation_model_after c base_loader start mh k =
     fold (\<lambda>_. rotation_step c base_loader) [start..k] mh"

definition rotation_record ::
  "('m, 'h, 'a, 'f, 'o, 't) rot_collab \<Rightarrow> ('a image list \<times> int list) list \<Rightarrow> int
     \<Rightarrow> 'm \<times> 'h \<Rightarrow> int \<Rightarrow> 't ckpt" where
  "rotation_record c base_loader start mh k =
     \<lparr>ck_epoch = k,
      ck_state = rc_state_dict c (fst (rotation_model_after c base_loader start mh k)),
      ck_rotate = Some (rc_head_state_dict c (snd (rotation_model_after c base_loader start mh k)))\<rparr>"

text \<open>
  What one held-out batch adds to the counters of the evaluation of the rotation driver,
  when its augmentation succeeds.
\<close>

definition eval_step ::
  "('m, 'h, 'a, 'f, 'o, 't) rot_collab \<Rightarrow> 'm \<Rightarrow> 'h \<Rightarrow> 'a image list \<times> int list \<Rightarrow> rot_eval
     \<Rightarrow> rot_eval" where
  "eval_step c model rotate_classifier b acc =
     rotation_eval_batch c model rotate_classifier
       (concat (map rotations (fst b))) (concat (map (replicate 4) (snd b)))
       (concat (map (\<lambda>_. [0, 1, 2, 3]) (fst b))) acc"

text \<open>
  The contract of the backbone that the evaluation relies on: one prediction per sample.
\<close>

definition predicts_each :: "('m, 'h, 'a, 'f, 'o, 't) rot_collab \<Rightarrow> bool" where
  "predicts_each c =
     (\<forall>m xs. length (rc_argmax c (snd (rc_forward c m xs))) = length xs)"


definition trained_epochs :: "(error + 'r) \<times> 't world \<Rightarrow> int list" where
  "trained_epochs r = w_trained (snd r)"

definition files_after :: "(error + 'r) \<times> 't world \<Rightarrow> (int \<rightharpoonup> 't ckpt)" where
  "files_after r = w_files (snd r)"

section \<open>Statements of the specification, for comparison\<close>


text \<open>
  The remap in the words of the specification: the two new entries are a magnitude and a
  direction of the original weight, that is, both are determined by the entry
  \<^verbatim>\<open>'module.linear.weight'\<close>.
\<close>

definition spec_weight_split :: "('t \<Rightarrow> 't) \<Rightarrow> ('t \<Rightarrow> 't) \<Rightarrow> 't state_dict \<Rightarrow> bool" where
  "spec_weight_split magnitude direction state =
     (case remap_linear state of
        Inl e \<Rightarrow> False
      | Inr state' \<Rightarrow>
          state' ''module.linear.L.weight_g''
            = map_option magnitude (state ''module.linear.weight'')
        \<and> state' ''module.linear.L.weight_v''
            = map_option direction (state ''module.linear.weight''))"

text \<open>
  The failure that the specification expects after a dispatch that fell through: the read
  of a variable that was never bound.
\<close>

definition spec_fails_unbound :: "error + 'a \<Rightarrow> bool" where
  "spec_fails_unbound r =
     (case r of
        Inl (NameError v) \<Rightarrow> True
      | Inl (UnboundLocalError v) \<Rightarrow> True
      | _ \<Rightarrow> False)"

section \<open>Small concrete collaborators and inputs\<close>

text \<open>
  Executable stand-ins for the collaborators, used to run the model on concrete inputs:
  models and heads are counters of optimizer steps, logits are lists of predicted labels,
  the criterion counts label distance.
\<close>

definition toy_criterion :: "int list \<Rightarrow> int list \<Rightarrow> real" where
  "toy_criterion pred y = real_of_int (sum_list (map2 (\<lambda>p t. \<bar>p - t\<bar>) pred y))"

definition toy_mixup :: "(nat, int list, int list, nat) mixup_collab" where
  "toy_mixup =
     \<lparr>mc_forward_mixup = (\<lambda>m x y lam. (x, y, rev y)),
      mc_forward = (\<lambda>m x. x),
      mc_criterion = toy_criterion,
      mc_step = (\<lambda>m x y lam. Suc m),
      mc_predicted = (\<lambda>out. out),
      mc_state_dict = (\<lambda>m. [''module.linear.weight'' \<mapsto> m, ''module.linear.bias'' \<mapsto> m + 100])\<rparr>"

definition toy_mixup_img :: "(nat, nat image list, int list, nat) mixup_collab" where
  "toy_mixup_img =
     \<lparr>mc_forward_mixup = (\<lambda>m x y lam. (y, y, rev y)),
      mc_forward = (\<lambda>m x. map (\<lambda>_. 7) x),
      mc_criterion = toy_criterion,
      mc_step = (\<lambda>m x y lam. Suc m),
      mc_predicted = (\<lambda>out. out),
      mc_state_dict = (\<lambda>m. [''module.linear.weight'' \<mapsto> m, ''module.linear.bias'' \<mapsto> m + 100])\<rparr>"

definition toy_rot :: "(nat, nat, nat, nat, int list, nat) rot_collab" where
  "toy_rot =
     \<lparr>rc_forward = (\<lambda>m x. (length x, map (\<lambda>_. 7) x)),
      rc_head = (\<lambda>h f. replicate f 0),
      rc_lossfn = toy_criterion,
      rc_step = (\<lambda>m h x y a. (Suc m, h + 2)),
      rc_argmax = (\<lambda>out. out),
      rc_state_dict = (\<lambda>m. [''module.linear.weight'' \<mapsto> m, ''module.linear.bias'' \<mapsto> m + 100]),
      rc_head_state_dict = (\<lambda>h. [''0.weight'' \<mapsto> h]),
      rc_new_head = (\<lambda>d. d),
      rc_head_load = (\<lambda>h s. case s ''0.weight'' of None \<Rightarrow> h | Some v \<Rightarrow> v)\<rparr>"

text \<open>Two images of one channel of 2 by 2 pixels, with their labels.\<close>

definition toy_x :: "nat image list" where
  "toy_x = [[[[1, 2], [3, 4]]], [[[5, 6], [7, 8]]]]"

definition toy_batch :: "nat image list \<times> int list" where
  "toy_batch = (toy_x, [7, 9])"

definition toy_params :: "string \<Rightarrow> string \<Rightarrow> params" where
  "toy_params model_name method =
     \<lparr>p_model = model_name, p_method = method, p_start_epoch = 0, p_stop_epoch = 3,
      p_save_freq = 2, p_resume = False\<rparr>"

text \<open>A checkpoint directory with one file, written at epoch 1 by a rotation run.\<close>

definition toy_ckpt :: "nat ckpt" where
  "toy_ckpt =
     \<lparr>ck_epoch = 1,
      ck_state = [''module.linear.weight'' \<mapsto> 5, ''module.linear.bias'' \<mapsto> 6],
      ck_rotate = Some [''0.weight'' \<mapsto> 9]\<rparr>"

definition toy_env :: "(nat, nat) main_env" where
  "toy_env =
     \<lparr>e_use_gpu = False, e_device_count = 0, e_wrn28_10 = 0, e_resnet18 = 0,
      e_data_parallel = (\<lambda>m. m),
      e_load_state_dict = (\<lambda>m s. case s ''module.linear.weight'' of
                                     None \<Rightarrow> Inl (RuntimeError ''Missing key(s) in state_dict'')
                                   | Some v \<Rightarrow> Inr v),
      e_resume_file = Some 1,
      e_files = [1 \<mapsto> toy_ckpt],
      e_rotation_resume_file = None,
      e_rotation_files = Map.empty\<rparr>"

section \<open>Auxiliary facts\<close>

lemma and_then_Inr [simp]: "and_then (Inr v) f = f v"
  by (simp add: and_then_def)

lemma and_then_Inl [simp]: "and_then (Inl e) f = Inl e"
  by (simp add: and_then_def)

subsection \<open>Rotations of rectangular images\<close>

lemma rev_map_upt: "rev (map f [0..<n]) = map (\<lambda>i. f (n - 1 - i)) [0..<n]"
  by (rule nth_equalityI) (simp_all add: rev_nth)

lemma rot_matrix:
  assumes "length m = H" and "\<forall>r\<in>set m. length r = W" and "0 < H"
  shows "rev (transpose m) = map (\<lambda>i. map (\<lambda>j. m ! j ! (W - 1 - i)) [0..<H]) [0..<W]"
proof -
  have "transpose m = map (\<lambda>i. map (\<lambda>j. m ! j ! i) [0..<length m]) [0..<W]"
    using assms by (intro transpose_rectangle) auto
  then show ?thesis
    using assms by (simp add: rev_map_upt)
qed

lemma rotate_loop_ok:
  "\<forall>j\<in>set js. j < length y \<Longrightarrow>
   rotate_loop x y js (xa, ya, aa) =
     Inr (xa @ concat (map (\<lambda>j. rotations (x ! j)) js),
          ya @ concat (map (\<lambda>j. replicate 4 (y ! j)) js),
          aa @ concat (map (\<lambda>j. [0, 1, 2, 3]) js))"
  by (induction js arbitrary: xa ya aa) (simp_all add: rotations_def rot_def Let_def)


lemma replicate_4: "replicate 4 v = [v, v, v, v]"
  by (simp add: numeral_eq_Suc)

lemma rot_channels: "rot t = map (\<lambda>ch. rev (transpose ch)) t"
  by (simp add: rot_def flip1_def transpose21_def)

lemma is_tensor3_rot:
  assumes "is_tensor3 C H W t" and "0 < H"
  shows "is_tensor3 C W H (rot t)"
proof -
  have "rev (transpose ch) = map (\<lambda>i. map (\<lambda>j. ch ! j ! (W - 1 - i)) [0..<H]) [0..<W]"
    if "ch \<in> set t" for ch
    using that assms by (intro rot_matrix) (auto simp: is_tensor3_def list_all_iff)
  then show ?thesis
    using assms by (auto simp: is_tensor3_def list_all_iff rot_channels)
qed

lemma rot_nth:
  assumes "is_tensor3 C H W t" and "c < C" and "i < W" and "j < H"
  shows "rot t ! c ! i ! j = t ! c ! j ! (W - 1 - i)"
proof -
  have ch: "t ! c \<in> set t" "length t = C"
    using assms by (auto simp: is_tensor3_def)
  have "rev (transpose (t ! c)) = map (\<lambda>i. map (\<lambda>j. t ! c ! j ! (W - 1 - i)) [0..<H]) [0..<W]"
    using ch assms by (intro rot_matrix) (auto simp: is_tensor3_def list_all_iff)
  then show ?thesis
    using assms ch by (simp add: rot_channels)
qed

lemma dims3_tensor:
  assumes "is_tensor3 C H W t" and "0 < C" and "0 < H"
  shows "dims3 t = (C, H, W)"
  using assms by (cases t; cases "hd t") (auto simp: dims3_def is_tensor3_def)

lemma torch_stack_ok:
  assumes "ts \<noteq> []" and "\<forall>u\<in>set ts. shape u = d"
  shows "torch_stack shape ts = Inr ts"
  using assms by (cases ts) (auto simp: torch_stack_def list_all_iff)

lemma nth_concat_blocks:
  assumes "\<forall>b\<in>set bs. length b = n" and "j < length bs" and "k < n"
  shows "concat bs ! (n * j + k) = bs ! j ! k"
  using assms
proof (induction bs arbitrary: j)
  case Nil
  then show ?case by simp
next
  case (Cons b bs)
  show ?case
  proof (cases j)
    case 0
    with Cons.prems show ?thesis by (simp add: nth_append)
  next
    case (Suc j')
    with Cons.prems have "concat bs ! (n * j' + k) = bs ! j' ! k"
      by (intro Cons.IH) auto
    with Suc Cons.prems show ?thesis
      by (simp add: nth_append add.assoc)
  qed
qed

lemma length_concat_blocks:
  assumes "\<forall>b\<in>set bs. length b = n"
  shows "length (concat bs) = n * length bs"
  using assms by (induction bs) auto

lemma rotate_batch_ok:
  assumes "x \<noteq> []" and "length y = length x"
    and "\<forall>img\<in>set x. is_tensor3 C S S img" and "0 < C" and "0 < S"
  shows "rotate_batch x y =
           Inr (concat (map rotations x), concat (map (replicate 4) y),
                concat (map (\<lambda>_. [0, 1, 2, 3]) x))"
proof -
  have idx: "map (\<lambda>j. f (x ! j)) [0..<length x] = map f x" for f :: "'a image \<Rightarrow> 'b"
    by (rule nth_equalityI) simp_all
  have idy: "map (\<lambda>j. replicate 4 (y ! j)) [0..<length x] = map (replicate 4) y"
    using assms(2) by (intro nth_equalityI) simp_all
  have loop: "rotate_loop x y [0..<length x] ([], [], []) =
      Inr (concat (map rotations x), concat (map (replicate 4) y),
           concat (map (\<lambda>_. [0, 1, 2, 3]) x))"
    using assms(2) idx [of rotations] idx [of "\<lambda>_. [0, 1, 2, 3::int]"] idy
    by (simp add: rotate_loop_ok)
  have shapes: "dims3 u = (C, S, S)" if "u \<in> set (concat (map rotations x))" for u
  proof -
    from that obtain img where img: "img \<in> set x" "u \<in> set (rotations img)"
      by auto
    then have t0: "is_tensor3 C S S img"
      using assms by simp
    have t1: "is_tensor3 C S S (rot img)"
      using t0 assms(5) by (rule is_tensor3_rot)
    have t2: "is_tensor3 C S S (rot (rot img))"
      using t1 assms(5) by (rule is_tensor3_rot)
    have t3: "is_tensor3 C S S (rot (rot (rot img)))"
      using t2 assms(5) by (rule is_tensor3_rot)
    from img t0 t1 t2 t3 have "is_tensor3 C S S u"
      by (auto simp: rotations_def)
    then show ?thesis
      using assms(4,5) by (rule dims3_tensor)
  qed
  have ne: "concat (map rotations x) \<noteq> []" "concat (map (replicate 4) y) \<noteq> []"
    "concat (map (\<lambda>_. [0, 1, 2, 3::int]) x) \<noteq> []"
    using assms(1,2) by (cases x; cases y; simp add: rotations_def)+
  have sx: "torch_stack dims3 (concat (map rotations x)) = Inr (concat (map rotations x))"
    using ne shapes by (intro torch_stack_ok [where d = "(C, S, S)"]) auto
  have sy: "torch_stack (\<lambda>_. ()) (concat (map (replicate 4) y)) = Inr (concat (map (replicate 4) y))"
    using ne by (intro torch_stack_ok [where d = "()"]) auto
  have sa: "torch_stack (\<lambda>_. ()) (concat (map (\<lambda>_. [0, 1, 2, 3::int]) x))
              = Inr (concat (map (\<lambda>_. [0, 1, 2, 3]) x))"
    using ne by (intro torch_stack_ok [where d = "()"]) auto
  show ?thesis
    by (simp add: rotate_batch_def loop sx sy sa)
qed


subsection \<open>The epoch loop of the mixup driver\<close>

lemma save_due_ok: "save_freq \<noteq> 0 \<Longrightarrow> save_due save_freq epoch stop_epoch = Inr (due save_freq stop_epoch epoch)"
  by (simp add: save_due_def py_mod_def due_def)

lemma mixup_eval_ok:
  "base_loader_test \<noteq> [] \<Longrightarrow> \<exists>p. mixup_eval c model base_loader base_loader_test = Inr p"
  by (simp add: mixup_eval_def split: prod.splits)

lemma mixup_model_after_rec:
  "epoch \<le> k \<Longrightarrow>
   mixup_model_after c lams bl epoch model k
     = mixup_model_after c lams bl (epoch + 1) (mixup_step c lams bl epoch model) k"
  by (simp add: mixup_model_after_def upto_rec1)

lemma mixup_model_after_empty:
  "k < epoch \<Longrightarrow> mixup_model_after c lams bl epoch model k = model"
  by (simp add: mixup_model_after_def)

lemma mixup_record_rec:
  "epoch \<le> k \<Longrightarrow>
   mixup_record c lams bl epoch model k
     = mixup_record c lams bl (epoch + 1) (mixup_step c lams bl epoch model) k"
  by (simp add: mixup_record_def mixup_model_after_rec)

declare mixup_epochs.simps [simp del]

lemma mixup_epochs_result:
  assumes "save_freq \<noteq> 0" and "base_loader_test \<noteq> []"
  shows "mixup_epochs c lams bl base_loader_test save_freq stop_epoch epoch m0 w =
     (Inr (mixup_model_after c lams bl epoch m0 (stop_epoch - 1)),
      \<lparr>w_files = (\<lambda>k. if epoch \<le> k \<and> k < stop_epoch \<and> due save_freq stop_epoch k
                       then Some (mixup_record c lams bl epoch m0 k)
                       else w_files w k),
       w_saved = w_saved w @
          map (\<lambda>k. (k, mixup_record c lams bl epoch m0 k))
            (filter (due save_freq stop_epoch) [epoch..stop_epoch - 1]),
       w_trained = w_trained w @ [epoch..stop_epoch - 1]\<rparr>)"
  using assms
proof (induction c lams bl base_loader_test save_freq stop_epoch epoch m0 w
        rule: mixup_epochs.induct)
  case (1 c lams bl blt save_freq stop_epoch epoch m0 w)
  show ?case
  proof (cases "epoch < stop_epoch")
    case False
    then have "(\<lambda>k. if epoch \<le> k \<and> k < stop_epoch \<and> due save_freq stop_epoch k
                          then Some (mixup_record c lams bl epoch m0 k)
                          else w_files w k) = w_files w"
      by (auto simp: fun_eq_iff)
    with False show ?thesis
      by (subst mixup_epochs.simps) (simp add: mixup_model_after_empty)
  next
    case True
    obtain model train_loss where tr:
      "mixup_train_epoch c (lams epoch) 0 bl (m0, 0) = (model, train_loss)"
      by (cases "mixup_train_epoch c (lams epoch) 0 bl (m0, 0)")
    then have model: "model = mixup_step c lams bl epoch m0"
      by (simp add: mixup_step_def)
    have "\<exists>p. mixup_eval c model bl blt = Inr p"
      using "1.prems"(2) by (rule mixup_eval_ok)
    then obtain p where ev: "mixup_eval c model bl blt = Inr p" ..
    have sd: "save_due save_freq epoch stop_epoch = Inr (due save_freq stop_epoch epoch)"
      using "1.prems" by (simp add: save_due_ok)
    let ?w2 = "(if due save_freq stop_epoch epoch
                then torch_save \<lparr>ck_epoch = epoch, ck_state = mc_state_dict c model,
                                 ck_rotate = None\<rparr> epoch
                else id) (w\<lparr>w_trained := w_trained w @ [epoch]\<rparr>)"
    have IH: "mixup_epochs c lams bl blt save_freq stop_epoch (epoch + 1) model ?w2 =
      (Inr (mixup_model_after c lams bl (epoch + 1) model (stop_epoch - 1)),
       \<lparr>w_files = (\<lambda>k. if epoch + 1 \<le> k \<and> k < stop_epoch \<and> due save_freq stop_epoch k
                          then Some (mixup_record c lams bl (epoch + 1) model k)
                          else w_files ?w2 k),
        w_saved = w_saved ?w2 @
             map (\<lambda>k. (k, mixup_record c lams bl (epoch + 1) model k))
               (filter (due save_freq stop_epoch) [epoch + 1..stop_epoch - 1]),
        w_trained = w_trained ?w2 @ [epoch + 1..stop_epoch - 1]\<rparr>)"
      by (rule "1.IH" [OF True tr [symmetric] sd ev "1.prems"])
    have rec0: "mixup_record c lams bl epoch m0 epoch
                  = \<lparr>ck_epoch = epoch, ck_state = mc_state_dict c model, ck_rotate = None\<rparr>"
      by (simp add: mixup_record_def mixup_model_after_def model)
    have recs: "mixup_record c lams bl (epoch + 1) model k = mixup_record c lams bl epoch m0 k"
      if "epoch + 1 \<le> k" for k
      using that by (simp add: mixup_record_rec [of epoch k] model)
    have up: "[epoch..stop_epoch - 1] = epoch # [epoch + 1..stop_epoch - 1]"
      using True by (subst upto_rec1) simp_all
    have m: "mixup_model_after c lams bl (epoch + 1) model (stop_epoch - 1)
               = mixup_model_after c lams bl epoch m0 (stop_epoch - 1)"
      using True by (simp add: mixup_model_after_rec [of epoch "stop_epoch - 1"] model)
    have f: "(\<lambda>k. if epoch + 1 \<le> k \<and> k < stop_epoch \<and> due save_freq stop_epoch k
                          then Some (mixup_record c lams bl (epoch + 1) model k)
                          else w_files ?w2 k)
           = (\<lambda>k. if epoch \<le> k \<and> k < stop_epoch \<and> due save_freq stop_epoch k
                          then Some (mixup_record c lams bl epoch m0 k)
                          else w_files w k)"
    proof (rule ext)
      fix k
      consider "k = epoch" | "epoch + 1 \<le> k" | "k < epoch"
        by linarith
      then show "(if epoch + 1 \<le> k \<and> k < stop_epoch \<and> due save_freq stop_epoch k
                  then Some (mixup_record c lams bl (epoch + 1) model k)
                  else w_files ?w2 k)
               = (if epoch \<le> k \<and> k < stop_epoch \<and> due save_freq stop_epoch k
                  then Some (mixup_record c lams bl epoch m0 k)
                  else w_files w k)"
      proof cases
        case 1
        with True show ?thesis by (simp add: torch_save_def rec0)
      next
        case 2
        then show ?thesis by (simp add: torch_save_def recs)
      next
        case 3
        then show ?thesis by (simp add: torch_save_def)
      qed
    qed
    have s: "w_saved ?w2 @
             map (\<lambda>k. (k, mixup_record c lams bl (epoch + 1) model k))
               (filter (due save_freq stop_epoch) [epoch + 1..stop_epoch - 1])
          = w_saved w @
             map (\<lambda>k. (k, mixup_record c lams bl epoch m0 k))
               (filter (due save_freq stop_epoch) [epoch..stop_epoch - 1])"
      unfolding up by (auto simp: torch_save_def rec0 recs)
    have t: "w_trained ?w2 @ [epoch + 1..stop_epoch - 1] = w_trained w @ [epoch..stop_epoch - 1]"
      unfolding up by (simp add: torch_save_def)
    have "mixup_epochs c lams bl blt save_freq stop_epoch epoch m0 w
            = mixup_epochs c lams bl blt save_freq stop_epoch (epoch + 1) model ?w2"
      by (subst mixup_epochs.simps) (simp add: True tr sd ev)
    then show ?thesis
      unfolding IH m f s t by simp
  qed
qed

text \<open>
  When the evaluation raises, the checkpoint of the epoch has been written already: with
  no held-out batch, the first epoch ends the run, after its save.
\<close>

lemma mixup_epochs_eval_raises:
  assumes "save_freq \<noteq> 0" and "epoch < stop_epoch" and "bl \<noteq> []"
  shows "mixup_epochs c lams bl [] save_freq stop_epoch epoch m0 w =
     (Inl ZeroDivisionError,
      (if due save_freq stop_epoch epoch
       then torch_save (mixup_record c lams bl epoch m0 epoch) epoch
       else id) (w\<lparr>w_trained := w_trained w @ [epoch]\<rparr>))"
proof -
  obtain model train_loss where tr:
    "mixup_train_epoch c (lams epoch) 0 bl (m0, 0) = (model, train_loss)"
    by (cases "mixup_train_epoch c (lams epoch) 0 bl (m0, 0)")
  then have model: "model = mixup_step c lams bl epoch m0"
    by (simp add: mixup_step_def)
  have rec0: "mixup_record c lams bl epoch m0 epoch
                = \<lparr>ck_epoch = epoch, ck_state = mc_state_dict c model, ck_rotate = None\<rparr>"
    by (simp add: mixup_record_def mixup_model_after_def model)
  have ev: "mixup_eval c model bl [] = Inl ZeroDivisionError"
    using assms(3) by (simp add: mixup_eval_def)
  show ?thesis
    by (subst mixup_epochs.simps)
       (simp add: assms(2) tr save_due_ok [OF assms(1)] ev rec0)
qed

subsection \<open>Batches and evaluation of the rotation driver\<close>

lemma wf_batch_rotate:
  assumes "wf_batch C S (x, y)" and "0 < C" and "0 < S"
  shows "rotate_batch x y =
           Inr (concat (map rotations x), concat (map (replicate 4) y),
                concat (map (\<lambda>_. [0, 1, 2, 3]) x))"
  using assms by (intro rotate_batch_ok [where C = C and S = S]) (auto simp: wf_batch_def list_all_iff)

lemma rotation_batch_ok:
  assumes "wf_batch C S (x, y)" and "0 < C" and "0 < S"
  shows "rotation_batch c (m, h) (x, y) =
           Inr (rc_step c m h (concat (map rotations x)) (concat (map (replicate 4) y))
                  (concat (map (\<lambda>_. [0, 1, 2, 3]) x)),
                rotation_losses c m h (concat (map rotations x)) (concat (map (replicate 4) y))
                  (concat (map (\<lambda>_. [0, 1, 2, 3]) x)))"
  by (simp add: rotation_batch_def wf_batch_rotate [OF assms])

lemma rotation_train_epoch_ok:
  assumes "\<forall>b\<in>set bs. wf_batch C S b" and "0 < C" and "0 < S"
  shows "\<exists>al ar. rotation_train_epoch c bs (mh, a, r) = Inr (rotation_step c bs mh, al, ar)"
  using assms(1)
proof (induction bs arbitrary: mh a r)
  case Nil
  then show ?case by (simp add: rotation_step_def)
next
  case (Cons b bs)
  obtain x y where b: "b = (x, y)" by (cases b)
  obtain m h where mh: "mh = (m, h)" by (cases mh)
  have wf: "wf_batch C S (x, y)"
    using Cons.prems b by simp
  have rest: "\<forall>b\<in>set bs. wf_batch C S b"
    using Cons.prems by simp
  let ?mh' = "rc_step c m h (concat (map rotations x)) (concat (map (replicate 4) y))
                  (concat (map (\<lambda>_. [0, 1, 2, 3]) x))"
  have step: "rotation_step c (b # bs) mh = rotation_step c bs ?mh'"
    by (simp add: rotation_step_def b mh)
  show ?case
    unfolding step
    using Cons.IH [OF rest, of ?mh']
    by (simp add: b mh rotation_batch_ok [OF wf assms(2,3)])
qed

lemma rotation_eval_loop_ok:
  assumes "\<forall>b\<in>set (take (10 - i) bs). wf_batch C S b" and "0 < C" and "0 < S"
  shows "rotation_eval_loop c m h i bs acc = Inr (fold (eval_step c m h) (take (10 - i) bs) acc)"
  using assms(1)
proof (induction bs arbitrary: i acc)
  case Nil
  then show ?case by simp
next
  case (Cons b bs)
  obtain x y where b: "b = (x, y)" by (cases b)
  show ?case
  proof (cases "i < 10")
    case False
    then have "10 - i = 0" by simp
    moreover have "10 - Suc i = 0" using False by simp
    ultimately show ?thesis
      using Cons.IH [of "Suc i" acc] False by (simp add: b)
  next
    case True
    then have "10 - i = Suc (10 - Suc i)"
      by arith
    then have t: "take (10 - i) (b # bs) = b # take (10 - Suc i) bs"
      by (simp only: take_Suc_Cons)
    have wf: "wf_batch C S (x, y)"
      using Cons.prems unfolding t by (simp add: b)
    have rest: "\<forall>b\<in>set (take (10 - Suc i) bs). wf_batch C S b"
      using Cons.prems unfolding t by simp
    have run: "rotation_eval_loop c m h i (b # bs) acc
                 = rotation_eval_loop c m h (Suc i) bs (eval_step c m h b acc)"
      using True by (simp add: b wf_batch_rotate [OF wf assms(2,3)] eval_step_def)
    show ?thesis
      unfolding run t using Cons.IH [OF rest, of "eval_step c m h b acc"] by simp
  qed
qed

lemma eval_step_total:
  assumes "predicts_each c"
  shows "ev_total (eval_step c m h b acc) = ev_total acc + 4 * length (fst b)"
proof -
  let ?x' = "concat (map rotations (fst b))"
  obtain f scores where fw: "rc_forward c m ?x' = (f, scores)"
    by (cases "rc_forward c m ?x'")
  have "length (rc_argmax c (snd (rc_forward c m ?x'))) = length ?x'"
    using assms by (simp add: predicts_each_def)
  moreover have "length ?x' = 4 * length (fst b)"
    by (subst length_concat_blocks [where n = 4]) (auto simp: rotations_def)
  ultimately have "length (rc_argmax c scores) = 4 * length (fst b)"
    by (simp add: fw)
  then show ?thesis
    by (simp add: eval_step_def rotation_eval_batch_def fw Let_def)
qed

lemma fold_eval_step_total:
  assumes "predicts_each c"
  shows "ev_total (fold (eval_step c m h) bs acc)
           = ev_total acc + 4 * sum_list (map (\<lambda>b. length (fst b)) bs)"
  by (induction bs arbitrary: acc) (simp_all add: eval_step_total [OF assms])

lemma rotation_eval_result:
  assumes "\<forall>b\<in>set (take 10 bs). wf_batch C S b" and "0 < C" and "0 < S"
    and "predicts_each c" and "bs \<noteq> []"
  shows "rotation_eval c m h bs =
           Inr (fold (eval_step c m h) (take 10 bs)
                  \<lparr>ev_correct = 0, ev_rcorrect = 0, ev_total = 0\<rparr>)"
proof -
  let ?z = "\<lparr>ev_correct = 0, ev_rcorrect = 0, ev_total = 0\<rparr>"
  have loop: "rotation_eval_loop c m h 0 bs ?z = Inr (fold (eval_step c m h) (take 10 bs) ?z)"
    using rotation_eval_loop_ok [of 0 bs C S c m h ?z] assms(1,2,3) by simp
  obtain b rest where bs: "bs = b # rest"
    using assms(5) by (cases bs) auto
  then have "wf_batch C S b"
    using assms(1) by simp
  then have "0 < length (fst b)"
    by (cases b) (simp add: wf_batch_def)
  then have "ev_total (fold (eval_step c m h) (take 10 bs) ?z) \<noteq> 0"
    unfolding fold_eval_step_total [OF assms(4)] using bs by simp
  then show ?thesis
    by (simp add: rotation_eval_def loop)
qed

lemma rotation_eval_ok:
  assumes "\<forall>b\<in>set (take 10 bs). wf_batch C S b" and "0 < C" and "0 < S"
    and "predicts_each c" and "bs \<noteq> []"
  shows "\<exists>acc. rotation_eval c m h bs = Inr acc"
  using rotation_eval_result [OF assms] by simp

subsection \<open>The epoch loop of the rotation driver\<close>

lemma rotation_model_after_rec:
  "epoch \<le> k \<Longrightarrow>
   rotation_model_after c bl epoch mh k
     = rotation_model_after c bl (epoch + 1) (rotation_step c bl mh) k"
  by (simp add: rotation_model_after_def upto_rec1)

lemma rotation_model_after_empty:
  "k < epoch \<Longrightarrow> rotation_model_after c bl epoch mh k = mh"
  by (simp add: rotation_model_after_def)

lemma rotation_record_rec:
  "epoch \<le> k \<Longrightarrow>
   rotation_record c bl epoch mh k
     = rotation_record c bl (epoch + 1) (rotation_step c bl mh) k"
  by (simp add: rotation_record_def rotation_model_after_rec)

declare rotation_epochs.simps [simp del]

lemma rotation_epochs_result:
  assumes "save_freq \<noteq> 0" and "\<forall>b\<in>set bl. wf_batch C S b"
    and "\<forall>b\<in>set (take 10 blt). wf_batch C S b" and "blt \<noteq> []"
    and "predicts_each c" and "0 < C" and "0 < S"
  shows "rotation_epochs c bl blt save_freq stop_epoch epoch mh0 w =
     (Inr (rotation_model_after c bl epoch mh0 (stop_epoch - 1)),
     \<lparr>w_files = (\<lambda>k. if epoch \<le> k \<and> k < stop_epoch \<and> due save_freq stop_epoch k
                          then Some (rotation_record c bl epoch mh0 k)
                          else w_files w k),
          w_saved = w_saved w @
             map (\<lambda>k. (k, rotation_record c bl epoch mh0 k))
               (filter (due save_freq stop_epoch) [epoch..stop_epoch - 1]),
          w_trained = w_trained w @ [epoch..stop_epoch - 1]\<rparr>)"
  using assms
proof (induction c bl blt save_freq stop_epoch epoch mh0 w rule: rotation_epochs.induct)
  case (1 c bl blt save_freq stop_epoch epoch mh0 w)
  show ?case
  proof (cases "epoch < stop_epoch")
    case False
    then have "(\<lambda>k. if epoch \<le> k \<and> k < stop_epoch \<and> due save_freq stop_epoch k
                          then Some (rotation_record c bl epoch mh0 k)
                          else w_files w k) = w_files w"
      by (auto simp: fun_eq_iff)
    with False show ?thesis
      by (subst rotation_epochs.simps) (simp add: rotation_model_after_empty)
  next
    case True
    let ?mh = "rotation_step c bl mh0"
    have "\<exists>al ar. rotation_train_epoch c bl (mh0, 0, 0) = Inr (?mh, al, ar)"
      using "1.prems"(2,6,7) by (rule rotation_train_epoch_ok)
    then obtain al ar where tr: "rotation_train_epoch c bl (mh0, 0, 0) = Inr (?mh, al, ar)"
      by blast
    have "\<exists>acc. rotation_eval c (fst ?mh) (snd ?mh) blt = Inr acc"
      using "1.prems"(3,6,7,5,4) by (rule rotation_eval_ok)
    then obtain p where ev: "rotation_eval c (fst ?mh) (snd ?mh) blt = Inr p"
      by blast
    have sd: "save_due save_freq epoch stop_epoch = Inr (due save_freq stop_epoch epoch)"
      using "1.prems"(1) by (simp add: save_due_ok)
    let ?w2 = "(if due save_freq stop_epoch epoch
                then torch_save \<lparr>ck_epoch = epoch, ck_state = rc_state_dict c (fst ?mh),
                                 ck_rotate = Some (rc_head_state_dict c (snd ?mh))\<rparr> epoch
                else id) (w\<lparr>w_trained := w_trained w @ [epoch]\<rparr>)"
    have IH: "rotation_epochs c bl blt save_freq stop_epoch (epoch + 1) ?mh ?w2 =
      (Inr (rotation_model_after c bl (epoch + 1) ?mh (stop_epoch - 1)),
      \<lparr>w_files = (\<lambda>k. if epoch + 1 \<le> k \<and> k < stop_epoch \<and> due save_freq stop_epoch k
                          then Some (rotation_record c bl (epoch + 1) ?mh k)
                          else w_files ?w2 k),
          w_saved = w_saved ?w2 @
             map (\<lambda>k. (k, rotation_record c bl (epoch + 1) ?mh k))
               (filter (due save_freq stop_epoch) [epoch + 1..stop_epoch - 1]),
          w_trained = w_trained ?w2 @ [epoch + 1..stop_epoch - 1]\<rparr>)"
      by (rule "1.IH" [OF True tr refl refl sd ev "1.prems"])
    have rec0: "rotation_record c bl epoch mh0 epoch
                  = \<lparr>ck_epoch = epoch, ck_state = rc_state_dict c (fst ?mh),
                     ck_rotate = Some (rc_head_state_dict c (snd ?mh))\<rparr>"
      by (simp add: rotation_record_def rotation_model_after_def)
    have recs: "rotation_record c bl (epoch + 1) ?mh k = rotation_record c bl epoch mh0 k"
      if "epoch + 1 \<le> k" for k
      using that by (simp add: rotation_record_rec [of epoch k])
    have up: "[epoch..stop_epoch - 1] = epoch # [epoch + 1..stop_epoch - 1]"
      using True by (subst upto_rec1) simp_all
    have m: "rotation_model_after c bl (epoch + 1) ?mh (stop_epoch - 1)
               = rotation_model_after c bl epoch mh0 (stop_epoch - 1)"
      using True by (simp add: rotation_model_after_rec [of epoch "stop_epoch - 1"])
    have f: "(\<lambda>k. if epoch + 1 \<le> k \<and> k < stop_epoch \<and> due save_freq stop_epoch k
                          then Some (rotation_record c bl (epoch + 1) ?mh k)
                          else w_files ?w2 k)
           = (\<lambda>k. if epoch \<le> k \<and> k < stop_epoch \<and> due save_freq stop_epoch k
                          then Some (rotation_record c bl epoch mh0 k)
                          else w_files w k)"
    proof (rule ext)
      fix k
      consider "k = epoch" | "epoch + 1 \<le> k" | "k < epoch"
        by linarith
      then show "(if epoch + 1 \<le> k \<and> k < stop_epoch \<and> due save_freq stop_epoch k
                  then Some (rotation_record c bl (epoch + 1) ?mh k)
                  else w_files ?w2 k)
               = (if epoch \<le> k \<and> k < stop_epoch \<and> due save_freq stop_epoch k
                  then Some (rotation_record c bl epoch mh0 k)
                  else w_files w k)"
      proof cases
        case 1
        with True show ?thesis by (simp add: torch_save_def rec0)
      next
        case 2
        then show ?thesis by (simp add: torch_save_def recs)
      next
        case 3
        then show ?thesis by (simp add: torch_save_def)
      qed
    qed
    have s: "w_saved ?w2 @
             map (\<lambda>k. (k, rotation_record c bl (epoch + 1) ?mh k))
               (filter (due save_freq stop_epoch) [epoch + 1..stop_epoch - 1])
          = w_saved w @
             map (\<lambda>k. (k, rotation_record c bl epoch mh0 k))
               (filter (due save_freq stop_epoch) [epoch..stop_epoch - 1])"
      unfolding up by (auto simp: torch_save_def rec0 recs)
    have t: "w_trained ?w2 @ [epoch + 1..stop_epoch - 1] = w_trained w @ [epoch..stop_epoch - 1]"
      unfolding up by (simp add: torch_save_def)
    have "rotation_epochs c bl blt save_freq stop_epoch epoch mh0 w
            = rotation_epochs c bl blt save_freq stop_epoch (epoch + 1) ?mh ?w2"
      by (subst rotation_epochs.simps) (simp add: True tr sd ev)
    then show ?thesis
      unfolding IH m f s t by simp
  qed
qed

text \<open>The two drivers, from their first epoch.\<close>

lemma train_manifold_mixup_result:
  assumes "p_save_freq params \<noteq> 0" and "base_loader_test \<noteq> []"
  shows "train_manifold_mixup c lams bl base_loader_test model s e params files =
     (Inr (mixup_model_after c lams bl s model (e - 1)),
      \<lparr>w_files = (\<lambda>k. if s \<le> k \<and> k < e \<and> due (p_save_freq params) e k
                       then Some (mixup_record c lams bl s model k)
                       else files k),
       w_saved = map (\<lambda>k. (k, mixup_record c lams bl s model k))
                   (filter (due (p_save_freq params) e) [s..e - 1]),
       w_trained = [s..e - 1]\<rparr>)"
  unfolding train_manifold_mixup_def
  by (subst mixup_epochs_result [OF assms]) (simp cong: if_cong)

lemma rotate_classifier_init_fresh:
  "rotate_classifier_dispatch c params = Some h \<Longrightarrow>
   rotate_classifier_init c params use_gpu None = Inr h"
  by (simp add: rotate_classifier_init_def read_local_def)

lemma rotate_classifier_init_loaded:
  "rotate_classifier_dispatch c params = Some h \<Longrightarrow> ck_rotate t = Some s \<Longrightarrow>
   rotate_classifier_init c params use_gpu (Some t) = Inr (rc_head_load c h s)"
  by (simp add: rotate_classifier_init_def read_local_def)

lemma rotate_classifier_init_unbound:
  "rotate_classifier_dispatch c params = None \<Longrightarrow>
   rotate_classifier_init c params use_gpu tmp = Inl (UnboundLocalError ''rotate_classifier'')"
  by (simp add: rotate_classifier_init_def read_local_def split: option.splits)

lemma rotate_classifier_init_ok:
  "p_model params = ''WideResNet28_10'' \<or> p_model params = ''ResNet18'' \<Longrightarrow>
   \<exists>h. rotate_classifier_init c params use_gpu tmp = Inr h"
  by (auto simp: rotate_classifier_init_def rotate_classifier_dispatch_def read_local_def
      split: option.splits)

lemma rotate_classifier_dispatch_cases:
  "rotate_classifier_dispatch c params =
     (if p_model params = ''WideResNet28_10'' then Some (rc_new_head c 640)
      else if p_model params = ''ResNet18'' then Some (rc_new_head c 512)
      else None)"
  by (simp add: rotate_classifier_dispatch_def)

lemma train_rotation_result:
  assumes "rotate_classifier_init c params use_gpu tmp = Inr h"
    and "p_save_freq params \<noteq> 0" and "\<forall>b\<in>set bl. wf_batch C S b"
    and "\<forall>b\<in>set (take 10 blt). wf_batch C S b" and "blt \<noteq> []"
    and "predicts_each c" and "0 < C" and "0 < S"
  shows "train_rotation c use_gpu bl blt model s e params tmp files =
     (Inr (fst (rotation_model_after c bl s (model, h) (e - 1))),
      \<lparr>w_files = (\<lambda>k. if s \<le> k \<and> k < e \<and> due (p_save_freq params) e k
                       then Some (rotation_record c bl s (model, h) k)
                       else files k),
       w_saved = map (\<lambda>k. (k, rotation_record c bl s (model, h) k))
                   (filter (due (p_save_freq params) e) [s..e - 1]),
       w_trained = [s..e - 1]\<rparr>)"
  unfolding train_rotation_def assms(1)
  by (simp add: rotation_epochs_result [OF assms(2-8)] cong: if_cong)

text \<open>The entry point, when the model name is one of the two and the resume file loads.\<close>

lemma model_dispatch_resume [simp]:
  "model_dispatch env (params\<lparr>p_resume := b\<rparr>) = model_dispatch env params"
  by (simp add: model_dispatch_def)

lemma rotate_classifier_dispatch_resume [simp]:
  "rotate_classifier_dispatch c (params\<lparr>p_resume := b\<rparr>) = rotate_classifier_dispatch c params"
  by (simp add: rotate_classifier_dispatch_def)

lemma remap_linear_ok:
  assumes "state ''module.linear.weight'' = Some w" and "state ''module.linear.bias'' = Some b"
  shows "remap_linear state =
           Inr (state(''module.linear.L.weight_g'' \<mapsto> w, ''module.linear.L.weight_v'' \<mapsto> b))"
  using assms by (simp add: remap_linear_def dict_get_def)

lemma main_s2m2:
  assumes "p_method params = ''S2M2_R''" and "model_dispatch env params = Some m0"
    and "torch_load (e_files env) (e_resume_file env) = Inr tmp"
    and "remap_linear (ck_state tmp) = Inr st"
    and "e_load_state_dict env (e_data_parallel env m0)
           (mc_state_dict mc (e_data_parallel env m0) ++ st) = Inr m"
  shows "main mc rc lams env bl blt params =
           (case train_manifold_mixup mc lams bl blt m (ck_epoch tmp + 1)
                   (ck_epoch tmp + 1 + p_stop_epoch params) (params\<lparr>p_resume := True\<rparr>)
                   (e_files env) of
              (r, w) \<Rightarrow> (and_then r (\<lambda>m. Inr (MixupRun m)), w))"
  using assms by (simp add: main_def Let_def read_global_def s2m2_resume_def)

lemma main_rotation:
  assumes "p_method params = ''rotation''" and "model_dispatch env params = Some m0"
    and "torch_load (e_files env) (e_resume_file env) = Inr tmp"
    and "e_load_state_dict env
           (if e_use_gpu env \<and> 1 < e_device_count env then e_data_parallel env m0 else m0)
           (ck_state tmp) = Inr m"
  shows "main mc rc lams env bl blt params =
           (case train_rotation rc (e_use_gpu env) bl blt m (ck_epoch tmp + 1)
                   (p_stop_epoch params) (params\<lparr>p_resume := True\<rparr>) None (e_files env) of
              (r, w) \<Rightarrow> (and_then r (\<lambda>m. Inr (RotationRun m)), w))"
  using assms
  by (cases "e_use_gpu env"; cases "1 < e_device_count env")
     (simp_all add: main_def Let_def read_global_def rotation_resume_def)

text \<open>Facts about the concrete collaborators.\<close>

lemma toy_batch_wf: "wf_batch 1 2 toy_batch"
  by (simp add: wf_batch_def toy_batch_def toy_x_def is_tensor3_def)

lemma toy_rot_predicts_each: "predicts_each toy_rot"
  by (simp add: predicts_each_def toy_rot_def)

lemma toy_load: "torch_load (e_files toy_env) (e_resume_file toy_env) = Inr toy_ckpt"
  by (simp add: torch_load_def toy_env_def)

lemma toy_remap:
  "remap_linear (ck_state toy_ckpt) =
     Inr [''module.linear.weight'' \<mapsto> 5, ''module.linear.bias'' \<mapsto> 6,
          ''module.linear.L.weight_g'' \<mapsto> 5, ''module.linear.L.weight_v'' \<mapsto> 6]"
  by (simp add: toy_ckpt_def remap_linear_def dict_get_def)

lemma toy_eval_step:
  "eval_step toy_rot m h toy_batch acc =
     \<lparr>ev_correct = ev_correct acc + 4, ev_rcorrect = ev_rcorrect acc + 2,
      ev_total = ev_total acc + 8\<rparr>"
proof -
  have x: "concat (map rotations toy_x)
             = [toy_x ! 0, rot (toy_x ! 0), rot (rot (toy_x ! 0)), rot (rot (rot (toy_x ! 0))),
                toy_x ! 1, rot (toy_x ! 1), rot (rot (toy_x ! 1)), rot (rot (rot (toy_x ! 1)))]"
    by (simp add: toy_x_def rotations_def)
  have h: "replicate 8 (0::int) = [0, 0, 0, 0, 0, 0, 0, 0]"
    by (simp add: numeral_eq_Suc)
  have a: "concat (map (\<lambda>_. [0, 1, 2, 3 :: int]) toy_x) = [0, 1, 2, 3, 0, 1, 2, 3]"
    by (simp add: toy_x_def)
  show ?thesis
    unfolding eval_step_def toy_batch_def fst_conv snd_conv x a
    by (simp add: rotation_eval_batch_def toy_rot_def h replicate_4 count_eq_def)
qed

lemma toy_eval_fold:
  "fold (eval_step toy_rot m h) (replicate n toy_batch) acc =
     \<lparr>ev_correct = ev_correct acc + 4 * n, ev_rcorrect = ev_rcorrect acc + 2 * n,
      ev_total = ev_total acc + 8 * n\<rparr>"
  by (induction n arbitrary: acc) (simp_all add: toy_eval_step)

section \<open>Results\<close>

text \<open>
  C3. For every prediction, every pair of label orderings and every \<open>lam\<close> between 0 and 1,
  the loss of a batch of the mixup driver is \<open>lam\<close> times the cross-entropy of the prediction
  against the labels \<open>a\<close> plus \<open>1 - lam\<close> times the cross-entropy against the labels \<open>b\<close>,
  where the prediction and the two label orderings are what the model returns in mixup
  mode; at \<open>lam = 0\<close> the blend is the cross-entropy against \<open>b\<close>, at \<open>lam = 1\<close> the
  cross-entropy against \<open>a\<close>.
\<close>

theorem mixup_loss_blend:
  fixes c :: "('m, 'x, 'o, 't) mixup_collab"
  assumes "0 \<le> lam" and "lam \<le> 1"
    and "mc_forward_mixup c model x y lam = (pred, a, b)"
  shows "snd (mixup_batch c model (x, y) lam) =
           lam * mc_criterion c pred a + (1 - lam) * mc_criterion c pred b
         \<and> mixup_criterion CE pred a b lam = lam * CE pred a + (1 - lam) * CE pred b
         \<and> mixup_criterion CE pred a b 0 = CE pred b
         \<and> mixup_criterion CE pred a b 1 = CE pred a"
  using assms by (simp add: mixup_batch_def mixup_criterion_def)

text \<open>
  The theorem at a batch of four samples of two classes, \<open>lam = 1/2\<close>: the loss is the
  unweighted average of the two criteria.
\<close>

theorem mixup_loss_blend_witness:
  "(0::real) \<le> 1/2 \<and> (1/2::real) \<le> 1
   \<and> mc_forward_mixup toy_mixup 0 [1, 1, 0, 1] [0, 0, 1, 1] (1/2)
       = ([1, 1, 0, 1], [0, 0, 1, 1], [1, 1, 0, 0])
   \<and> snd (mixup_batch toy_mixup 0 ([1, 1, 0, 1], [0, 0, 1, 1]) (1/2)) = 2
   \<and> toy_criterion [1, 1, 0, 1] [0, 0, 1, 1] = 3
   \<and> toy_criterion [1, 1, 0, 1] [1, 1, 0, 0] = 1
   \<and> mixup_criterion toy_criterion [1, 1, 0, 1] [0, 0, 1, 1] [1, 1, 0, 0] 0 = 1
   \<and> mixup_criterion toy_criterion [1, 1, 0, 1] [0, 0, 1, 1] [1, 1, 0, 0] 1 = 3"
proof -
  have f: "mc_forward_mixup toy_mixup 0 [1, 1, 0, 1] [0, 0, 1, 1] (1/2)
             = ([1, 1, 0, 1], [0, 0, 1, 1], [1, 1, 0, 0])"
    by (simp add: toy_mixup_def)
  have a: "toy_criterion [1, 1, 0, 1] [0, 0, 1, 1] = 3"
    by (simp add: toy_criterion_def)
  have b: "toy_criterion [1, 1, 0, 1] [1, 1, 0, 0] = 1"
    by (simp add: toy_criterion_def)
  have m: "mc_criterion toy_mixup = toy_criterion"
    by (simp add: toy_mixup_def)
  show ?thesis
    using mixup_loss_blend [OF _ _ f, where CE = toy_criterion] f a b m by simp
qed

text \<open>
  C4. For every batch of \<open>n\<close> images (at least one, one label per image, every image \<open>C\<close>
  channels of \<open>S\<close> by \<open>S\<close> pixels), the augmentation step of the rotation driver returns a
  batch of exactly \<open>4 * n\<close> samples in which the four images made from source image \<open>j\<close>
  stand at the positions \<open>4 * j\<close> to \<open>4 * j + 3\<close>: the image itself and the results of one,
  two and three applications of \<^verbatim>\<open>.transpose(2, 1).flip(1)\<close>, which are its rotations by 90,
  180 and 270 degrees (pixel \<open>(r, k)\<close> of the result is pixel \<open>(k, S - 1 - r)\<close>,
  \<open>(S - 1 - r, S - 1 - k)\<close>, \<open>(S - 1 - k, r)\<close> of the source); all four carry the class
  label of the source image, and their rotation labels are 0, 1, 2, 3.
\<close>

theorem rotation_augmentation:
  assumes "x \<noteq> []" and "length y = length x"
    and "\<forall>img\<in>set x. is_tensor3 C S S img" and "0 < C" and "0 < S"
  shows "\<exists>x' y' a'. rotate_batch x y = Inr (x', y', a')
     \<and> length x' = 4 * length x \<and> length y' = 4 * length x \<and> length a' = 4 * length x
     \<and> (\<forall>u\<in>set x'. is_tensor3 C S S u)
     \<and> a' = concat (replicate (length x) [0, 1, 2, 3])
     \<and> (\<forall>j<length x.
           x' ! (4 * j) = x ! j
         \<and> x' ! (4 * j + 1) = rot (x ! j)
         \<and> x' ! (4 * j + 2) = rot (rot (x ! j))
         \<and> x' ! (4 * j + 3) = rot (rot (rot (x ! j)))
         \<and> (\<forall>k<4. y' ! (4 * j + k) = y ! j \<and> a' ! (4 * j + k) = int k)
         \<and> (\<forall>c<C. \<forall>r<S. \<forall>k<S.
               rot (x ! j) ! c ! r ! k = x ! j ! c ! k ! (S - 1 - r)
             \<and> rot (rot (x ! j)) ! c ! r ! k = x ! j ! c ! (S - 1 - r) ! (S - 1 - k)
             \<and> rot (rot (rot (x ! j))) ! c ! r ! k = x ! j ! c ! (S - 1 - k) ! r))"
proof -
  let ?x' = "concat (map rotations x)"
  let ?y' = "concat (map (replicate 4) y)"
  let ?a' = "concat (map (\<lambda>_. [0, 1, 2, 3::int]) x)"
  have run: "rotate_batch x y = Inr (?x', ?y', ?a')"
    using assms by (rule rotate_batch_ok)
  have lx: "length ?x' = 4 * length x"
    by (subst length_concat_blocks [where n = 4]) (auto simp: rotations_def)
  have ly: "length ?y' = 4 * length x"
    using assms(2) by (subst length_concat_blocks [where n = 4]) auto
  have la: "length ?a' = 4 * length x"
    by (subst length_concat_blocks [where n = 4]) auto
  have arep: "?a' = concat (replicate (length x) [0, 1, 2, 3])"
    by (simp add: map_replicate_const)
  have tens: "is_tensor3 C S S (x ! j) \<and> is_tensor3 C S S (rot (x ! j))
      \<and> is_tensor3 C S S (rot (rot (x ! j))) \<and> is_tensor3 C S S (rot (rot (rot (x ! j))))"
    if "j < length x" for j
  proof -
    have t0: "is_tensor3 C S S (x ! j)"
      using that assms(3) by simp
    have t1: "is_tensor3 C S S (rot (x ! j))"
      using t0 assms(5) by (rule is_tensor3_rot)
    have t2: "is_tensor3 C S S (rot (rot (x ! j)))"
      using t1 assms(5) by (rule is_tensor3_rot)
    have t3: "is_tensor3 C S S (rot (rot (rot (x ! j))))"
      using t2 assms(5) by (rule is_tensor3_rot)
    from t0 t1 t2 t3 show ?thesis by simp
  qed
  have all_t: "\<forall>u\<in>set ?x'. is_tensor3 C S S u"
  proof
    fix u assume "u \<in> set ?x'"
    then obtain img where "img \<in> set x" "u \<in> set (rotations img)"
      by auto
    then obtain j where "j < length x" "u \<in> set (rotations (x ! j))"
      by (auto simp: in_set_conv_nth)
    with tens [of j] show "is_tensor3 C S S u"
      by (auto simp: rotations_def)
  qed
  have xn: "?x' ! (4 * j + k) = rotations (x ! j) ! k" if "j < length x" "k < 4" for j k
    using that nth_concat_blocks [of "map rotations x" 4 j k] by (simp add: rotations_def)
  have yn: "?y' ! (4 * j + k) = y ! j" if "j < length x" "k < 4" for j k
    using that assms(2) nth_concat_blocks [of "map (replicate 4) y" 4 j k] by simp
  have an: "?a' ! (4 * j + k) = [0, 1, 2, 3] ! k" if "j < length x" "k < 4" for j k
    using that nth_concat_blocks [of "map (\<lambda>_. [0, 1, 2, 3::int]) x" 4 j k] by simp
  have ak: "[0, 1, 2, 3::int] ! k = int k" if "k < 4" for k
  proof -
    from that have "k = 0 \<or> k = 1 \<or> k = 2 \<or> k = 3" by arith
    then show ?thesis by auto
  qed
  have idx: "rot (x ! j) ! c ! r ! k = x ! j ! c ! k ! (S - 1 - r)
             \<and> rot (rot (x ! j)) ! c ! r ! k = x ! j ! c ! (S - 1 - r) ! (S - 1 - k)
             \<and> rot (rot (rot (x ! j))) ! c ! r ! k = x ! j ! c ! (S - 1 - k) ! r"
    if "j < length x" "c < C" "r < S" "k < S" for j c r k
  proof -
    note t = tens [OF that(1)]
    have r1: "rot t ! c ! r' ! k' = t ! c ! k' ! (S - 1 - r')"
      if "is_tensor3 C S S t" "r' < S" "k' < S" for t :: "'a image" and r' k'
      using that(1) \<open>c < C\<close> that(2,3) by (rule rot_nth)
    have a: "rot (x ! j) ! c ! r ! k = x ! j ! c ! k ! (S - 1 - r)"
      using t that by (simp add: r1)
    have b: "rot (rot (x ! j)) ! c ! r ! k = x ! j ! c ! (S - 1 - r) ! (S - 1 - k)"
      using t that by (simp add: r1)
    have "rot (rot (rot (x ! j))) ! c ! r ! k = x ! j ! c ! (S - 1 - k) ! (S - 1 - (S - 1 - r))"
      using t that by (simp add: r1)
    moreover have "S - 1 - (S - 1 - r) = r"
      using that by arith
    ultimately show ?thesis
      using a b by simp
  qed
  have per: "?x' ! (4 * j) = x ! j
         \<and> ?x' ! (4 * j + 1) = rot (x ! j)
         \<and> ?x' ! (4 * j + 2) = rot (rot (x ! j))
         \<and> ?x' ! (4 * j + 3) = rot (rot (rot (x ! j)))
         \<and> (\<forall>k<4. ?y' ! (4 * j + k) = y ! j \<and> ?a' ! (4 * j + k) = int k)
         \<and> (\<forall>c<C. \<forall>r<S. \<forall>k<S.
               rot (x ! j) ! c ! r ! k = x ! j ! c ! k ! (S - 1 - r)
             \<and> rot (rot (x ! j)) ! c ! r ! k = x ! j ! c ! (S - 1 - r) ! (S - 1 - k)
             \<and> rot (rot (rot (x ! j))) ! c ! r ! k = x ! j ! c ! (S - 1 - k) ! r)"
    if j: "j < length x" for j
  proof -
    have "?x' ! (4 * j) = x ! j"
      using xn [OF j, of 0] by (simp add: rotations_def)
    moreover have "?x' ! (4 * j + 1) = rot (x ! j)"
      using xn [OF j, of 1] by (simp add: rotations_def)
    moreover have "?x' ! (4 * j + 2) = rot (rot (x ! j))"
      using xn [OF j, of 2] by (simp add: rotations_def)
    moreover have "?x' ! (4 * j + 3) = rot (rot (rot (x ! j)))"
      using xn [OF j, of 3] by (simp add: rotations_def)
    moreover have "\<forall>k<4. ?y' ! (4 * j + k) = y ! j \<and> ?a' ! (4 * j + k) = int k"
      using yn [OF j] an [OF j] ak by simp
    moreover have "\<forall>c<C. \<forall>r<S. \<forall>k<S.
               rot (x ! j) ! c ! r ! k = x ! j ! c ! k ! (S - 1 - r)
             \<and> rot (rot (x ! j)) ! c ! r ! k = x ! j ! c ! (S - 1 - r) ! (S - 1 - k)
             \<and> rot (rot (rot (x ! j))) ! c ! r ! k = x ! j ! c ! (S - 1 - k) ! r"
      using idx [OF j] by blast
    ultimately show ?thesis by blast
  qed
  show ?thesis
    using run lx ly la all_t arep per by blast
qed


text \<open>The augmentation of two 2 by 2 images.\<close>

theorem rotation_augmentation_witness:
  "toy_x \<noteq> [] \<and> length [7, 9 :: int] = length toy_x
   \<and> list_all (is_tensor3 1 2 2) toy_x
   \<and> rotate_batch toy_x [7, 9] =
       Inr ([[[[1, 2], [3, 4]]], [[[2, 4], [1, 3]]], [[[4, 3], [2, 1]]], [[[3, 1], [4, 2]]],
             [[[5, 6], [7, 8]]], [[[6, 8], [5, 7]]], [[[8, 7], [6, 5]]], [[[7, 5], [8, 6]]]],
            [7, 7, 7, 7, 9, 9, 9, 9], [0, 1, 2, 3, 0, 1, 2, 3])
   \<and> (\<exists>x' y' a'. rotate_batch toy_x [7, 9] = Inr (x', y', a') \<and> length x' = 4 * length toy_x)"
proof -
  have h1: "toy_x \<noteq> []"
    by (simp add: toy_x_def)
  have h2: "length [7, 9 :: int] = length toy_x"
    by (simp add: toy_x_def)
  have h3: "\<forall>img\<in>set toy_x. is_tensor3 1 2 2 img"
    by (simp add: toy_x_def is_tensor3_def)
  have h4: "(0::nat) < 1" and h5: "(0::nat) < 2"
    by simp_all
  have loop: "rotate_loop toy_x [7, 9] [0..<length toy_x] ([], [], []) =
       Inr ([[[[1, 2], [3, 4]]], [[[2, 4], [1, 3]]], [[[4, 3], [2, 1]]], [[[3, 1], [4, 2]]],
             [[[5, 6], [7, 8]]], [[[6, 8], [5, 7]]], [[[8, 7], [6, 5]]], [[[7, 5], [8, 6]]]],
            [7, 7, 7, 7, 9, 9, 9, 9], [0, 1, 2, 3, 0, 1, 2, 3])"
    by (simp add: toy_x_def flip1_def transpose21_def replicate_4 upt_rec [of 0] upt_rec [of 1]
        upt_rec [of 2])
  have run: "rotate_batch toy_x [7, 9] =
       Inr ([[[[1, 2], [3, 4]]], [[[2, 4], [1, 3]]], [[[4, 3], [2, 1]]], [[[3, 1], [4, 2]]],
             [[[5, 6], [7, 8]]], [[[6, 8], [5, 7]]], [[[8, 7], [6, 5]]], [[[7, 5], [8, 6]]]],
            [7, 7, 7, 7, 9, 9, 9, 9], [0, 1, 2, 3, 0, 1, 2, 3])"
    unfolding rotate_batch_def loop by (simp add: torch_stack_def dims3_def)
  have ex: "\<exists>x' y' a'. rotate_batch toy_x [7, 9] = Inr (x', y', a')
              \<and> length x' = 4 * length toy_x"
    using rotation_augmentation [OF h1 h2 h3 h4 h5] by (elim exE conjE) (intro exI conjI)
  have h3': "list_all (is_tensor3 1 2 2) toy_x"
    using h3 by (simp add: list_all_iff)
  show ?thesis
    by (intro conjI h1 h2 h3' run ex)
qed

text \<open>
  C5. For every batch of the rotation driver, the loss on which \<^verbatim>\<open>backward()\<close> is called is
  0.5 times the cross-entropy of the class logits against the class labels, each repeated
  four times, plus 0.5 times the cross-entropy of the rotation logits against the rotation
  labels 0, 1, 2, 3 of each image; the class logits and the embeddings are what the backbone
  returns on the augmented batch, the rotation logits what the head returns on the
  embeddings.
\<close>

theorem rotation_loss_half_half:
  fixes c :: "('m, 'h, 'a, 'f, 'o, 't) rot_collab"
  assumes "wf_batch C S (x, y)" and "0 < C" and "0 < S"
    and "rc_forward c model (concat (map rotations x)) = (f, scores)"
  shows "\<exists>mh l. rotation_batch c (model, head) (x, y) = Inr (mh, l)
     \<and> rl_closs l = rc_lossfn c scores (concat (map (replicate 4) y))
     \<and> rl_rloss l = rc_lossfn c (rc_head c head f) (concat (replicate (length x) [0, 1, 2, 3]))
     \<and> rl_loss l = 0.5 * rl_closs l + 0.5 * rl_rloss l"
proof -
  have "concat (map (\<lambda>_. [0, 1, 2, 3 :: int]) x) = concat (replicate (length x) [0, 1, 2, 3])"
    by (simp add: map_replicate_const)
  then show ?thesis
    using assms(4)
    by (simp add: rotation_batch_ok [OF assms(1,2,3)] rotation_losses_def Let_def)
qed

theorem rotation_loss_half_half_witness:
  "wf_batch 1 2 toy_batch
   \<and> rc_forward toy_rot 0 (concat (map rotations toy_x)) = (8, [7, 7, 7, 7, 7, 7, 7, 7])
   \<and> (\<exists>mh l. rotation_batch toy_rot (0, 0) toy_batch = Inr (mh, l)
        \<and> rl_closs l = 8 \<and> rl_rloss l = 12 \<and> rl_loss l = 10)"
proof -
  have wf: "wf_batch 1 2 (toy_x, [7, 9])"
    by (simp add: wf_batch_def toy_x_def is_tensor3_def)
  have fw: "rc_forward toy_rot 0 (concat (map rotations toy_x)) = (8, [7, 7, 7, 7, 7, 7, 7, 7])"
    by (simp add: toy_rot_def toy_x_def rotations_def)
  have c1: "rc_lossfn toy_rot [7, 7, 7, 7, 7, 7, 7, 7] (concat (map (replicate 4) [7, 9])) = 8"
    by (simp add: toy_rot_def toy_criterion_def replicate_4)
  have c2: "rc_lossfn toy_rot (rc_head toy_rot 0 8)
              (concat (replicate (length toy_x) [0, 1, 2, 3])) = 12"
    by (simp add: toy_rot_def toy_criterion_def toy_x_def numeral_eq_Suc)
  from rotation_loss_half_half [OF wf _ _ fw, of 0] obtain mh l where
    "rotation_batch toy_rot (0, 0) (toy_x, [7, 9]) = Inr (mh, l)"
    "rl_closs l = 8" "rl_rloss l = 12" "rl_loss l = 0.5 * rl_closs l + 0.5 * rl_rloss l"
    unfolding c1 c2 by auto
  then have "\<exists>mh l. rotation_batch toy_rot (0, 0) toy_batch = Inr (mh, l)
        \<and> rl_closs l = 8 \<and> rl_rloss l = 12 \<and> rl_loss l = 10"
    by (auto simp: toy_batch_def)
  with wf fw show ?thesis
    by (simp add: toy_batch_def)
qed

text \<open>
  C6. In every epoch of the rotation driver, for every backbone and head and every held-out
  stream of \<open>n\<close> batches (the first ten of them well-formed, the stream not empty), the
  counters \<^verbatim>\<open>correct\<close>, \<^verbatim>\<open>rcorrect\<close> and \<^verbatim>\<open>total\<close> after the evaluation are what the first
  \<open>min 10 n\<close> batches of the stream add to zero, one after the other: the batches after the
  tenth add nothing, so the evaluation of the whole stream is the evaluation of its first
  ten batches, and \<^verbatim>\<open>total\<close> is four times the number of images in these.
\<close>

theorem rotation_eval_first_ten:
  assumes "\<forall>b\<in>set (take 10 base_loader_test). wf_batch C S b" and "0 < C" and "0 < S"
    and "predicts_each c" and "base_loader_test \<noteq> []"
  shows "rotation_eval c model rotate_classifier base_loader_test =
           Inr (fold (eval_step c model rotate_classifier) (take 10 base_loader_test)
                  \<lparr>ev_correct = 0, ev_rcorrect = 0, ev_total = 0\<rparr>)
       \<and> length (take 10 base_loader_test) = min 10 (length base_loader_test)
       \<and> rotation_eval c model rotate_classifier base_loader_test
           = rotation_eval c model rotate_classifier (take 10 base_loader_test)
       \<and> ev_total (fold (eval_step c model rotate_classifier) (take 10 base_loader_test)
                     \<lparr>ev_correct = 0, ev_rcorrect = 0, ev_total = 0\<rparr>)
           = 4 * sum_list (map (\<lambda>b. length (fst b)) (take 10 base_loader_test))"
proof -
  let ?z = "\<lparr>ev_correct = 0, ev_rcorrect = 0, ev_total = 0\<rparr>"
  have all: "rotation_eval c model rotate_classifier base_loader_test =
               Inr (fold (eval_step c model rotate_classifier) (take 10 base_loader_test) ?z)"
    using assms by (rule rotation_eval_result)
  have wf10: "\<forall>b\<in>set (take 10 (take 10 base_loader_test)). wf_batch C S b"
    using assms(1) by simp
  have ne: "take 10 base_loader_test \<noteq> []"
    using assms(5) by simp
  have ten: "rotation_eval c model rotate_classifier (take 10 base_loader_test) =
               Inr (fold (eval_step c model rotate_classifier)
                      (take 10 (take 10 base_loader_test)) ?z)"
    using wf10 assms(2,3,4) ne by (rule rotation_eval_result)
  have tot: "ev_total (fold (eval_step c model rotate_classifier) (take 10 base_loader_test) ?z)
               = 4 * sum_list (map (\<lambda>b. length (fst b)) (take 10 base_loader_test))"
    by (simp add: fold_eval_step_total [OF assms(4)])
  have len: "length (take 10 base_loader_test) = min 10 (length base_loader_test)"
    by (simp add: min.commute)
  have same: "rotation_eval c model rotate_classifier base_loader_test
                = rotation_eval c model rotate_classifier (take 10 base_loader_test)"
    unfolding all ten by simp
  from all len same tot show ?thesis
    by (intro conjI)
qed

text \<open>
  Twelve held-out batches of two images: the counters are those of ten batches (80 samples),
  not of twelve (96 samples).
\<close>

theorem rotation_eval_first_ten_witness:
  "list_all (wf_batch 1 2) (take 10 (replicate 12 toy_batch))
   \<and> predicts_each toy_rot
   \<and> replicate 12 toy_batch \<noteq> []
   \<and> rotation_eval toy_rot 0 0 (replicate 12 toy_batch)
       = Inr \<lparr>ev_correct = 40, ev_rcorrect = 20, ev_total = 80\<rparr>
   \<and> fold (eval_step toy_rot 0 0) (replicate 12 toy_batch)
       \<lparr>ev_correct = 0, ev_rcorrect = 0, ev_total = 0\<rparr>
       = \<lparr>ev_correct = 48, ev_rcorrect = 24, ev_total = 96\<rparr>"
proof -
  have t: "take 10 (replicate 12 toy_batch) = replicate 10 toy_batch"
    by simp
  have h1: "\<forall>b\<in>set (take 10 (replicate 12 toy_batch)). wf_batch 1 2 b"
    unfolding t using toy_batch_wf by simp
  have h1': "list_all (wf_batch 1 2) (take 10 (replicate 12 toy_batch))"
    using h1 by (simp only: list_all_iff)
  have h5: "replicate 12 toy_batch \<noteq> []"
    by simp
  have "rotation_eval toy_rot 0 0 (replicate 12 toy_batch) =
           Inr (fold (eval_step toy_rot 0 0) (take 10 (replicate 12 toy_batch))
                  \<lparr>ev_correct = 0, ev_rcorrect = 0, ev_total = 0\<rparr>)"
    using rotation_eval_first_ten [OF h1 _ _ toy_rot_predicts_each h5, of 0 0] by simp
  then have run: "rotation_eval toy_rot 0 0 (replicate 12 toy_batch)
                    = Inr \<lparr>ev_correct = 40, ev_rcorrect = 20, ev_total = 80\<rparr>"
    unfolding t toy_eval_fold by simp
  have twelve: "fold (eval_step toy_rot 0 0) (replicate 12 toy_batch)
                  \<lparr>ev_correct = 0, ev_rcorrect = 0, ev_total = 0\<rparr>
                  = \<lparr>ev_correct = 48, ev_rcorrect = 24, ev_total = 96\<rparr>"
    unfolding toy_eval_fold by simp
  from h1' toy_rot_predicts_each h5 run twelve show ?thesis
    by (intro conjI)
qed




text \<open>
  C9. The manifold-mixup driver, given the bounds \<open>s\<close> and \<open>e\<close>, runs its training loop once
  for each epoch from \<open>s\<close> to \<open>e - 1\<close>, in order: \<open>e - s\<close> epochs (none when \<open>e \<le> s\<close>), provided
  the save frequency is not zero and the held-out stream is not empty, and returns the model
  after them. For the mixup regimen the entry point calls it with \<open>s\<close> the epoch of the
  resumed checkpoint plus one and \<open>e\<close> equal to \<open>s\<close> plus the flag \<^verbatim>\<open>stop_epoch\<close>.
\<close>

theorem mixup_epoch_count:
  fixes mc :: "('m, 'x, 'o, 't) mixup_collab"
    and mc2 :: "('n, 'a image list, 'p, 'u) mixup_collab"
  assumes "p_save_freq params \<noteq> 0" and "blt \<noteq> []" and "blt2 \<noteq> []"
  shows "trained_epochs (train_manifold_mixup mc lams bl blt model s e params files) = [s..e - 1]
       \<and> length (trained_epochs (train_manifold_mixup mc lams bl blt model s e params files))
           = nat (e - s)
       \<and> fst (train_manifold_mixup mc lams bl blt model s e params files)
           = Inr (mixup_model_after mc lams bl s model (e - 1))
       \<and> (p_method params = ''S2M2_R'' \<longrightarrow> model_dispatch env params = Some m0 \<longrightarrow>
          torch_load (e_files env) (e_resume_file env) = Inr tmp \<longrightarrow>
          remap_linear (ck_state tmp) = Inr st \<longrightarrow>
          e_load_state_dict env (e_data_parallel env m0)
            (mc_state_dict mc2 (e_data_parallel env m0) ++ st) = Inr m \<longrightarrow>
            main mc2 rc lams env bl2 blt2 params =
              (case train_manifold_mixup mc2 lams bl2 blt2 m (ck_epoch tmp + 1)
                      (ck_epoch tmp + 1 + p_stop_epoch params) (params\<lparr>p_resume := True\<rparr>)
                      (e_files env) of
                 (r, w) \<Rightarrow> (and_then r (\<lambda>m. Inr (MixupRun m)), w))
          \<and> trained_epochs (main mc2 rc lams env bl2 blt2 params)
              = [ck_epoch tmp + 1..ck_epoch tmp + p_stop_epoch params]
          \<and> length (trained_epochs (main mc2 rc lams env bl2 blt2 params))
              = nat (p_stop_epoch params))"
proof -
  have a: "trained_epochs (train_manifold_mixup mc lams bl blt model s e params files)
             = [s..e - 1]"
    by (simp add: trained_epochs_def train_manifold_mixup_result [OF assms(1,2)])
  have b: "length (trained_epochs (train_manifold_mixup mc lams bl blt model s e params files))
             = nat (e - s)"
    unfolding a by simp
  have c: "fst (train_manifold_mixup mc lams bl blt model s e params files)
             = Inr (mixup_model_after mc lams bl s model (e - 1))"
    by (simp add: train_manifold_mixup_result [OF assms(1,2)])
  have d: "main mc2 rc lams env bl2 blt2 params =
              (case train_manifold_mixup mc2 lams bl2 blt2 m (ck_epoch tmp + 1)
                      (ck_epoch tmp + 1 + p_stop_epoch params) (params\<lparr>p_resume := True\<rparr>)
                      (e_files env) of
                 (r, w) \<Rightarrow> (and_then r (\<lambda>m. Inr (MixupRun m)), w))
          \<and> trained_epochs (main mc2 rc lams env bl2 blt2 params)
              = [ck_epoch tmp + 1..ck_epoch tmp + p_stop_epoch params]
          \<and> length (trained_epochs (main mc2 rc lams env bl2 blt2 params))
              = nat (p_stop_epoch params)"
    if h: "p_method params = ''S2M2_R''" "model_dispatch env params = Some m0"
      "torch_load (e_files env) (e_resume_file env) = Inr tmp"
      "remap_linear (ck_state tmp) = Inr st"
      "e_load_state_dict env (e_data_parallel env m0)
            (mc_state_dict mc2 (e_data_parallel env m0) ++ st) = Inr m"
  proof -
    have sf: "p_save_freq (params\<lparr>p_resume := True\<rparr>) \<noteq> 0"
      using assms(1) by simp
    note m = main_s2m2 [OF h, of rc lams bl2 blt2]
    have t: "trained_epochs (main mc2 rc lams env bl2 blt2 params)
               = [ck_epoch tmp + 1..ck_epoch tmp + p_stop_epoch params]"
      unfolding m by (simp add: trained_epochs_def train_manifold_mixup_result [OF sf assms(3)])
    have "length [ck_epoch tmp + 1..ck_epoch tmp + p_stop_epoch params] = nat (p_stop_epoch params)"
      by simp
    with m t show ?thesis
      by simp
  qed
  from a b c d show ?thesis
    by blast
qed

text \<open>
  A resumed run: the checkpoint is of epoch 1 and the flag \<^verbatim>\<open>stop_epoch\<close> is 3, so the epochs 2,
  3 and 4 are trained.
\<close>

theorem mixup_epoch_count_witness:
  "p_save_freq (toy_params ''WideResNet28_10'' ''S2M2_R'') \<noteq> 0
   \<and> p_method (toy_params ''WideResNet28_10'' ''S2M2_R'') = ''S2M2_R''
   \<and> model_dispatch toy_env (toy_params ''WideResNet28_10'' ''S2M2_R'') = Some 0
   \<and> torch_load (e_files toy_env) (e_resume_file toy_env) = Inr toy_ckpt
   \<and> ck_epoch toy_ckpt = 1
   \<and> trained_epochs (train_manifold_mixup toy_mixup (\<lambda>_ _. 1 / 2) [([1], [1])] [([1], [1])] 0 2 5
        (toy_params ''WideResNet28_10'' ''S2M2_R'') Map.empty) = [2, 3, 4]
   \<and> trained_epochs (main toy_mixup_img toy_rot (\<lambda>_ _. 1 / 2) toy_env [toy_batch] [toy_batch]
        (toy_params ''WideResNet28_10'' ''S2M2_R'')) = [2, 3, 4]"
proof -
  let ?p = "toy_params ''WideResNet28_10'' ''S2M2_R''"
  have h1: "p_save_freq ?p \<noteq> 0"
    by (simp add: toy_params_def)
  have h2: "[([1::int], [1::int])] \<noteq> []"
    by simp
  have h3: "[toy_batch] \<noteq> []"
    by simp
  have g1: "p_method ?p = ''S2M2_R''"
    by (simp add: toy_params_def)
  have g2: "model_dispatch toy_env ?p = Some 0"
    by (simp add: model_dispatch_def toy_params_def toy_env_def)
  have g5: "e_load_state_dict toy_env (e_data_parallel toy_env 0)
              (mc_state_dict toy_mixup_img (e_data_parallel toy_env 0) ++
               [''module.linear.weight'' \<mapsto> 5, ''module.linear.bias'' \<mapsto> 6,
                ''module.linear.L.weight_g'' \<mapsto> 5, ''module.linear.L.weight_v'' \<mapsto> 6])
              = Inr 5"
    by (simp add: toy_env_def map_add_def)
  have e: "ck_epoch toy_ckpt = 1"
    by (simp add: toy_ckpt_def)
  have s: "p_stop_epoch ?p = 3"
    by (simp add: toy_params_def)
  note t = mixup_epoch_count [OF h1 h2 h3]
  have a: "trained_epochs (train_manifold_mixup toy_mixup (\<lambda>_ _. 1 / 2) [([1], [1])] [([1], [1])] 0 2 5
        ?p Map.empty) = [2, 3, 4]"
  proof -
    have "trained_epochs (train_manifold_mixup toy_mixup (\<lambda>_ _. 1 / 2) [([1], [1])]
            [([1], [1])] 0 2 5 ?p Map.empty) = [2..5 - 1]"
      by (rule t [THEN conjunct1])
    then show ?thesis by simp
  qed
  have b: "trained_epochs (main toy_mixup_img toy_rot (\<lambda>_ _. 1 / 2) toy_env [toy_batch] [toy_batch]
        ?p) = [2, 3, 4]"
  proof -
    have "trained_epochs (main toy_mixup_img toy_rot (\<lambda>_ _. 1 / 2) toy_env [toy_batch]
            [toy_batch] ?p) = [ck_epoch toy_ckpt + 1..ck_epoch toy_ckpt + p_stop_epoch ?p]"
      by (rule t [THEN conjunct2, THEN conjunct2, THEN conjunct2, rule_format,
            OF g1 g2 toy_load toy_remap g5, THEN conjunct2, THEN conjunct1])
    then show ?thesis by (simp add: e s)
  qed
  from h1 g1 g2 toy_load e a b show ?thesis
    by (intro conjI)
qed

text \<open>
  C10. A record written with \<^verbatim>\<open>torch.save\<close> under the file of epoch \<open>j\<close> is what loading that
  file returns. For every run of either driver (save frequency not zero, held-out stream
  not empty; for the rotation driver a model name that has a head, and well-formed
  batches), every record \<open>(k, r)\<close> that the run has saved is what loading the file of epoch
  \<open>k\<close> returns after the run: no later save overwrites it. Its epoch is \<open>k\<close>, its state is
  the state dictionary of the model after the training of the epochs up to \<open>k\<close>, and for the
  rotation driver its \<^verbatim>\<open>'rotate'\<close> entry is the state dictionary of the head at that time. A
  record saved in an epoch whose evaluation then raises is in its file all the same.
\<close>

theorem checkpoint_round_trip:
  fixes mc :: "('m, 'x, 'o, 't) mixup_collab" and rc :: "('n, 'h, 'a, 'f, 'p, 'u) rot_collab"
  assumes "p_save_freq params \<noteq> 0" and "blt \<noteq> []"
    and "p_model params = ''WideResNet28_10'' \<or> p_model params = ''ResNet18''"
    and "\<forall>b\<in>set rbl. wf_batch C S b" and "\<forall>b\<in>set (take 10 rblt). wf_batch C S b"
    and "rblt \<noteq> []" and "predicts_each rc" and "0 < C" and "0 < S"
  shows "torch_load (w_files (torch_save r j w)) (Some j) = Inr r
       \<and> (\<forall>(k, r) \<in> set (w_saved (snd (train_manifold_mixup mc lams bl blt model s e params files))).
            torch_load (files_after (train_manifold_mixup mc lams bl blt model s e params files))
              (Some k) = Inr r
          \<and> ck_epoch r = k
          \<and> ck_state r = mc_state_dict mc (mixup_model_after mc lams bl s model k)
          \<and> ck_rotate r = None)
       \<and> (\<exists>h. rotate_classifier_init rc params use_gpu tmp = Inr h
          \<and> (\<forall>(k, r) \<in> set (w_saved (snd (train_rotation rc use_gpu rbl rblt rmodel s e params
                                              tmp rfiles))).
                torch_load (files_after (train_rotation rc use_gpu rbl rblt rmodel s e params
                                           tmp rfiles)) (Some k) = Inr r
              \<and> ck_epoch r = k
              \<and> ck_state r
                  = rc_state_dict rc (fst (rotation_model_after rc rbl s (rmodel, h) k))
              \<and> ck_rotate r
                  = Some (rc_head_state_dict rc
                            (snd (rotation_model_after rc rbl s (rmodel, h) k)))))
       \<and> (bl \<noteq> [] \<longrightarrow> s < e \<longrightarrow> due (p_save_freq params) e s \<longrightarrow>
            fst (train_manifold_mixup mc lams bl [] model s e params files)
              = Inl ZeroDivisionError
          \<and> torch_load (files_after (train_manifold_mixup mc lams bl [] model s e params files))
              (Some s) = Inr (mixup_record mc lams bl s model s))"
proof -
  have a: "torch_load (w_files (torch_save r j w)) (Some j) = Inr r"
    by (simp add: torch_load_def torch_save_def)
  have b: "\<forall>(k, r) \<in> set (w_saved (snd (train_manifold_mixup mc lams bl blt model s e params files))).
            torch_load (files_after (train_manifold_mixup mc lams bl blt model s e params files))
              (Some k) = Inr r
          \<and> ck_epoch r = k
          \<and> ck_state r = mc_state_dict mc (mixup_model_after mc lams bl s model k)
          \<and> ck_rotate r = None"
    unfolding train_manifold_mixup_result [OF assms(1,2)]
    by (auto simp: files_after_def torch_load_def mixup_record_def)
  obtain h where h: "rotate_classifier_init rc params use_gpu tmp = Inr h"
    using rotate_classifier_init_ok [OF assms(3), of rc use_gpu tmp] by blast
  have c: "\<forall>(k, r) \<in> set (w_saved (snd (train_rotation rc use_gpu rbl rblt rmodel s e params
                                              tmp rfiles))).
                torch_load (files_after (train_rotation rc use_gpu rbl rblt rmodel s e params
                                           tmp rfiles)) (Some k) = Inr r
              \<and> ck_epoch r = k
              \<and> ck_state r
                  = rc_state_dict rc (fst (rotation_model_after rc rbl s (rmodel, h) k))
              \<and> ck_rotate r
                  = Some (rc_head_state_dict rc
                            (snd (rotation_model_after rc rbl s (rmodel, h) k)))"
    unfolding train_rotation_result [OF h assms(1) assms(4-9)]
    by (auto simp: files_after_def torch_load_def rotation_record_def)
  have d: "fst (train_manifold_mixup mc lams bl [] model s e params files)
              = Inl ZeroDivisionError
          \<and> torch_load (files_after (train_manifold_mixup mc lams bl [] model s e params files))
              (Some s) = Inr (mixup_record mc lams bl s model s)"
    if "bl \<noteq> []" "s < e" "due (p_save_freq params) e s"
    unfolding train_manifold_mixup_def mixup_epochs_eval_raises [OF assms(1) that(2) that(1)]
    using that(3) by (simp add: files_after_def torch_load_def torch_save_def)
  from a b h c d show ?thesis
    by blast
qed

text \<open>
  The mixup driver over the epochs 2, 3, 4 with save frequency 2: the file of epoch 4 holds
  the record of epoch 4, with the model after three epochs of one batch. With no held-out
  batch the run stops in epoch 2 on the division by zero, and the file of epoch 2 is there.
\<close>

theorem checkpoint_round_trip_witness:
  "p_save_freq (toy_params ''WideResNet28_10'' ''S2M2_R'') \<noteq> 0
   \<and> list_all (wf_batch 1 2) [toy_batch]
   \<and> predicts_each toy_rot
   \<and> torch_load (files_after (train_manifold_mixup toy_mixup (\<lambda>_ _. 1 / 2) [([1], [1])]
        [([1], [1])] 0 2 5 (toy_params ''WideResNet28_10'' ''S2M2_R'') Map.empty)) (Some 4)
       = Inr \<lparr>ck_epoch = 4, ck_state = mc_state_dict toy_mixup 3, ck_rotate = None\<rparr>
   \<and> fst (train_manifold_mixup toy_mixup (\<lambda>_ _. 1 / 2) [([1], [1])] [] 0 2 5
        (toy_params ''WideResNet28_10'' ''S2M2_R'') Map.empty) = Inl ZeroDivisionError
   \<and> torch_load (files_after (train_manifold_mixup toy_mixup (\<lambda>_ _. 1 / 2) [([1], [1])] [] 0 2 5
        (toy_params ''WideResNet28_10'' ''S2M2_R'') Map.empty)) (Some 2)
       = Inr \<lparr>ck_epoch = 2, ck_state = mc_state_dict toy_mixup 1, ck_rotate = None\<rparr>"
proof -
  let ?p = "toy_params ''WideResNet28_10'' ''S2M2_R''"
  let ?bl = "[([1::int], [1::int])]"
  let ?lams = "\<lambda>(_::int) (_::nat). (1 / 2 :: real)"
  let ?r4 = "\<lparr>ck_epoch = 4, ck_state = mc_state_dict toy_mixup 3, ck_rotate = None\<rparr>"
  have h1: "p_save_freq ?p \<noteq> 0"
    by (simp add: toy_params_def)
  have h2: "?bl \<noteq> []"
    by simp
  have h3: "p_model ?p = ''WideResNet28_10'' \<or> p_model ?p = ''ResNet18''"
    by (simp add: toy_params_def)
  have h4: "\<forall>b\<in>set [toy_batch]. wf_batch 1 2 b"
    using toy_batch_wf by simp
  have h5: "\<forall>b\<in>set (take 10 [toy_batch]). wf_batch 1 2 b"
    using toy_batch_wf by simp
  have h6: "[toy_batch] \<noteq> []"
    by simp
  have h4': "list_all (wf_batch 1 2) [toy_batch]"
    using toy_batch_wf by simp
  have h8: "(0::nat) < 1" and h9: "(0::nat) < 2"
    by simp_all
  have f: "p_save_freq ?p = 2"
    by (simp add: toy_params_def)
  have st: "mixup_step toy_mixup ?lams ?bl k m = Suc m" for k m
    by (simp add: mixup_step_def mixup_batch_def toy_mixup_def)
  have m4: "mixup_model_after toy_mixup ?lams ?bl 2 0 4 = 3"
    by (simp add: mixup_model_after_def st)
  have m2: "mixup_model_after toy_mixup ?lams ?bl 2 0 2 = 1"
    by (simp add: mixup_model_after_def st)
  note t = checkpoint_round_trip [OF h1 h2 h3 h4 h5 h6 toy_rot_predicts_each h8 h9,
      where mc = toy_mixup and lams = ?lams and bl = ?bl and model = 0 and s = 2 and e = 5
        and files = Map.empty]
  have mem: "(4, ?r4) \<in> set (w_saved (snd (train_manifold_mixup toy_mixup ?lams ?bl ?bl 0 2 5 ?p
                                             Map.empty)))"
    by (simp add: train_manifold_mixup_result [OF h1 h2] f due_def mixup_record_def m4)
  have a: "torch_load (files_after (train_manifold_mixup toy_mixup ?lams ?bl ?bl 0 2 5 ?p
                                      Map.empty)) (Some 4) = Inr ?r4"
    using t [THEN conjunct2, THEN conjunct1, THEN bspec, OF mem] by simp
  have d2: "due (p_save_freq ?p) 5 2"
    by (simp add: f due_def)
  have lt: "(2::int) < 5"
    by simp
  note r = t [THEN conjunct2, THEN conjunct2, THEN conjunct2, rule_format, OF h2 lt d2]
  have b: "fst (train_manifold_mixup toy_mixup ?lams ?bl [] 0 2 5 ?p Map.empty)
             = Inl ZeroDivisionError"
    by (rule r [THEN conjunct1])
  have c: "torch_load (files_after (train_manifold_mixup toy_mixup ?lams ?bl [] 0 2 5 ?p
                                      Map.empty)) (Some 2)
             = Inr \<lparr>ck_epoch = 2, ck_state = mc_state_dict toy_mixup 1, ck_rotate = None\<rparr>"
    using r [THEN conjunct2] by (simp add: mixup_record_def m2)
  from h1 h4' toy_rot_predicts_each a b c show ?thesis
    by (intro conjI)
qed

text \<open>
  C1. In the resume path of the mixup regimen, for a loaded state dictionary that has the
  entries \<^verbatim>\<open>'module.linear.weight'\<close> and \<^verbatim>\<open>'module.linear.bias'\<close>, the remap adds the entry
  \<^verbatim>\<open>'module.linear.L.weight_g'\<close> with the value of \<^verbatim>\<open>'module.linear.weight'\<close> and the entry
  \<^verbatim>\<open>'module.linear.L.weight_v'\<close> with the value of \<^verbatim>\<open>'module.linear.bias'\<close>, and changes no other
  entry; the dictionary that is then loaded into the model is the model's own state
  dictionary overridden by this one. The two new entries are copies of the two linear-layer
  parameters: the weight is not split, and \<^verbatim>\<open>weight_v\<close> does not depend on it.
\<close>

theorem remap_linear_values:
  assumes "state ''module.linear.weight'' = Some w" and "state ''module.linear.bias'' = Some b"
  shows "remap_linear state =
           Inr (state(''module.linear.L.weight_g'' \<mapsto> w, ''module.linear.L.weight_v'' \<mapsto> b))
       \<and> (\<exists>state'. remap_linear state = Inr state'
            \<and> state' ''module.linear.L.weight_g'' = Some w
            \<and> state' ''module.linear.L.weight_v'' = Some b
            \<and> (\<forall>k. k \<noteq> ''module.linear.L.weight_g'' \<longrightarrow> k \<noteq> ''module.linear.L.weight_v'' \<longrightarrow>
                   state' k = state k))
       \<and> (torch_load (e_files env) (e_resume_file env) = Inr tmp \<longrightarrow> ck_state tmp = state \<longrightarrow>
            s2m2_resume mc env (params\<lparr>p_resume := True\<rparr>) model =
              and_then
                (e_load_state_dict env model
                   (mc_state_dict mc model ++
                    state(''module.linear.L.weight_g'' \<mapsto> w, ''module.linear.L.weight_v'' \<mapsto> b)))
                (\<lambda>m. Inr (m, ck_epoch tmp + 1)))"
proof -
  have a: "remap_linear state =
           Inr (state(''module.linear.L.weight_g'' \<mapsto> w, ''module.linear.L.weight_v'' \<mapsto> b))"
    using assms by (rule remap_linear_ok)
  have b: "\<exists>state'. remap_linear state = Inr state'
            \<and> state' ''module.linear.L.weight_g'' = Some w
            \<and> state' ''module.linear.L.weight_v'' = Some b
            \<and> (\<forall>k. k \<noteq> ''module.linear.L.weight_g'' \<longrightarrow> k \<noteq> ''module.linear.L.weight_v'' \<longrightarrow>
                   state' k = state k)"
    unfolding a by simp
  have c: "s2m2_resume mc env (params\<lparr>p_resume := True\<rparr>) model =
              and_then
                (e_load_state_dict env model
                   (mc_state_dict mc model ++
                    state(''module.linear.L.weight_g'' \<mapsto> w, ''module.linear.L.weight_v'' \<mapsto> b)))
                (\<lambda>m. Inr (m, ck_epoch tmp + 1))"
    if "torch_load (e_files env) (e_resume_file env) = Inr tmp" "ck_state tmp = state"
    using that a by (simp add: s2m2_resume_def Let_def)
  from a b c show ?thesis
    by blast
qed

text \<open>The remap of the state dictionary with weight 5 and bias 6.\<close>

theorem remap_linear_values_witness:
  "ck_state toy_ckpt ''module.linear.weight'' = Some 5
   \<and> ck_state toy_ckpt ''module.linear.bias'' = Some 6
   \<and> remap_linear (ck_state toy_ckpt) =
       Inr ((ck_state toy_ckpt)
              (''module.linear.L.weight_g'' \<mapsto> 5, ''module.linear.L.weight_v'' \<mapsto> 6))
   \<and> s2m2_resume toy_mixup_img toy_env
        (toy_params ''WideResNet28_10'' ''S2M2_R''\<lparr>p_resume := True\<rparr>) 0 = Inr (5, 2)"
proof -
  have h1: "ck_state toy_ckpt ''module.linear.weight'' = Some 5"
    by (simp add: toy_ckpt_def)
  have h2: "ck_state toy_ckpt ''module.linear.bias'' = Some 6"
    by (simp add: toy_ckpt_def)
  note t = remap_linear_values [OF h1 h2]
  have a: "remap_linear (ck_state toy_ckpt) =
       Inr ((ck_state toy_ckpt)
              (''module.linear.L.weight_g'' \<mapsto> 5, ''module.linear.L.weight_v'' \<mapsto> 6))"
    by (rule t [THEN conjunct1])
  have l: "e_load_state_dict toy_env 0
             (mc_state_dict toy_mixup_img 0 ++
              (ck_state toy_ckpt)
                (''module.linear.L.weight_g'' \<mapsto> 5, ''module.linear.L.weight_v'' \<mapsto> 6))
             = Inr 5"
    by (simp add: toy_env_def toy_ckpt_def map_add_def)
  have e: "ck_epoch toy_ckpt + 1 = 2"
    by (simp add: toy_ckpt_def)
  have "s2m2_resume toy_mixup_img toy_env
          (toy_params ''WideResNet28_10'' ''S2M2_R''\<lparr>p_resume := True\<rparr>) 0 =
          and_then
            (e_load_state_dict toy_env 0
               (mc_state_dict toy_mixup_img 0 ++
                (ck_state toy_ckpt)
                  (''module.linear.L.weight_g'' \<mapsto> 5, ''module.linear.L.weight_v'' \<mapsto> 6)))
            (\<lambda>m. Inr (m, ck_epoch toy_ckpt + 1))"
    by (rule t [THEN conjunct2, THEN conjunct2, rule_format, OF toy_load refl])
  then have b: "s2m2_resume toy_mixup_img toy_env
        (toy_params ''WideResNet28_10'' ''S2M2_R''\<lparr>p_resume := True\<rparr>) 0 = Inr (5, 2)"
    unfolding l e by simp
  from h1 h2 a b show ?thesis
    by (intro conjI)
qed

text \<open>
  Two state dictionaries with the same weight and different biases get different
  \<^verbatim>\<open>weight_v\<close> entries: no magnitude and direction of the weight are what the remap produces.
\<close>

theorem remap_linear_values_counterexample:
  "\<not> (\<exists>magnitude direction.
        spec_weight_split magnitude direction
          [''module.linear.weight'' \<mapsto> 5 :: nat, ''module.linear.bias'' \<mapsto> 6]
      \<and> spec_weight_split magnitude direction
          [''module.linear.weight'' \<mapsto> 5, ''module.linear.bias'' \<mapsto> 7])"
proof
  assume "\<exists>magnitude direction.
        spec_weight_split magnitude direction
          [''module.linear.weight'' \<mapsto> 5 :: nat, ''module.linear.bias'' \<mapsto> 6]
      \<and> spec_weight_split magnitude direction
          [''module.linear.weight'' \<mapsto> 5, ''module.linear.bias'' \<mapsto> 7]"
  then obtain magnitude direction :: "nat \<Rightarrow> nat" where
    s1: "spec_weight_split magnitude direction
           [''module.linear.weight'' \<mapsto> 5, ''module.linear.bias'' \<mapsto> 6]"
    and s2: "spec_weight_split magnitude direction
           [''module.linear.weight'' \<mapsto> 5, ''module.linear.bias'' \<mapsto> 7]"
    by blast
  have r: "remap_linear [''module.linear.weight'' \<mapsto> 5 :: nat, ''module.linear.bias'' \<mapsto> v] =
          Inr ([''module.linear.weight'' \<mapsto> 5, ''module.linear.bias'' \<mapsto> v]
                 (''module.linear.L.weight_g'' \<mapsto> 5, ''module.linear.L.weight_v'' \<mapsto> v))" for v
    by (rule remap_linear_ok) simp_all
  from s1 have "direction 5 = 6"
    unfolding spec_weight_split_def r by simp
  moreover from s2 have "direction 5 = 7"
    unfolding spec_weight_split_def r by simp
  ultimately show False
    by simp
qed

text \<open>
  C7. A model-name flag other than \<^verbatim>\<open>WideResNet28_10\<close> and \<^verbatim>\<open>ResNet18\<close> leaves the variable
  \<^verbatim>\<open>model\<close> of the entry point, and the variable \<^verbatim>\<open>rotate_classifier\<close> of the rotation driver,
  unbound, and nothing is raised at the dispatch. What happens next depends on the method
  flag. With \<^verbatim>\<open>S2M2_R\<close> the program ends on the first read of \<^verbatim>\<open>model\<close>, a \<^verbatim>\<open>NameError\<close>. With
  \<^verbatim>\<open>rotation\<close> it ends on that read as well, at once when there is a GPU, and otherwise after
  the resume file has been loaded (or on the error of that load). The rotation driver
  itself ends on the first read of \<^verbatim>\<open>rotate_classifier\<close>, an \<^verbatim>\<open>UnboundLocalError\<close>, before any
  epoch. With a method flag other than \<^verbatim>\<open>S2M2_R\<close> and \<^verbatim>\<open>rotation\<close> no variable is read: the
  program ends normally, with no training and no error, whatever the model name. In all
  these cases no checkpoint is written.
\<close>

theorem dispatch_fall_through:
  assumes "p_model params \<noteq> ''WideResNet28_10''" and "p_model params \<noteq> ''ResNet18''"
  shows "model_dispatch env params = None
       \<and> rotate_classifier_dispatch rc params = None
       \<and> (p_method params = ''S2M2_R'' \<longrightarrow>
            main mc rc lams env bl blt params =
              (Inl (NameError ''model''),
               \<lparr>w_files = e_files env, w_saved = [], w_trained = []\<rparr>))
       \<and> (p_method params = ''rotation'' \<longrightarrow>
            main mc rc lams env bl blt params =
              ((if e_use_gpu env then Inl (NameError ''model'')
                else case torch_load (e_files env) (e_resume_file env) of
                       Inl e \<Rightarrow> Inl e
                     | Inr tmp \<Rightarrow> Inl (NameError ''model'')),
               \<lparr>w_files = e_files env, w_saved = [], w_trained = []\<rparr>))
       \<and> train_rotation rc use_gpu bl blt model s e params tmp files =
           (Inl (UnboundLocalError ''rotate_classifier''),
            \<lparr>w_files = files, w_saved = [], w_trained = []\<rparr>)
       \<and> (p_method params \<noteq> ''S2M2_R'' \<longrightarrow> p_method params \<noteq> ''rotation'' \<longrightarrow>
            main mc rc lams env bl blt params =
              (Inr NoRun, \<lparr>w_files = e_files env, w_saved = [], w_trained = []\<rparr>))"
proof -
  have a: "model_dispatch env params = None"
    using assms by (simp add: model_dispatch_def)
  have b: "rotate_classifier_dispatch rc params = None"
    using assms by (simp add: rotate_classifier_dispatch_def)
  have c: "main mc rc lams env bl blt params =
              (Inl (NameError ''model''),
               \<lparr>w_files = e_files env, w_saved = [], w_trained = []\<rparr>)"
    if "p_method params = ''S2M2_R''"
    using that a by (simp add: main_def Let_def read_global_def)
  have d: "main mc rc lams env bl blt params =
              ((if e_use_gpu env then Inl (NameError ''model'')
                else case torch_load (e_files env) (e_resume_file env) of
                       Inl e \<Rightarrow> Inl e
                     | Inr tmp \<Rightarrow> Inl (NameError ''model'')),
               \<lparr>w_files = e_files env, w_saved = [], w_trained = []\<rparr>)"
    if "p_method params = ''rotation''"
    using that a
    by (cases "torch_load (e_files env) (e_resume_file env)")
       (simp_all add: main_def Let_def read_global_def rotation_resume_def)
  have e: "train_rotation rc use_gpu bl blt model s e params tmp files =
           (Inl (UnboundLocalError ''rotate_classifier''),
            \<lparr>w_files = files, w_saved = [], w_trained = []\<rparr>)"
    by (simp add: train_rotation_def rotate_classifier_init_unbound [OF b])
  have f: "main mc rc lams env bl blt params =
              (Inr NoRun, \<lparr>w_files = e_files env, w_saved = [], w_trained = []\<rparr>)"
    if "p_method params \<noteq> ''S2M2_R''" "p_method params \<noteq> ''rotation''"
    using that by (simp add: main_def Let_def)
  from a b c d e f show ?thesis
    by blast
qed

text \<open>The model name \<^verbatim>\<open>Conv4\<close> with the method \<^verbatim>\<open>S2M2_R\<close>, and in the rotation driver.\<close>

theorem dispatch_fall_through_witness:
  "p_model (toy_params ''Conv4'' ''S2M2_R'') \<noteq> ''WideResNet28_10''
   \<and> p_model (toy_params ''Conv4'' ''S2M2_R'') \<noteq> ''ResNet18''
   \<and> p_method (toy_params ''Conv4'' ''S2M2_R'') = ''S2M2_R''
   \<and> model_dispatch toy_env (toy_params ''Conv4'' ''S2M2_R'') = None
   \<and> fst (main toy_mixup_img toy_rot (\<lambda>_ _. 1 / 2) toy_env [toy_batch] [toy_batch]
            (toy_params ''Conv4'' ''S2M2_R'')) = Inl (NameError ''model'')
   \<and> fst (train_rotation toy_rot False [toy_batch] [toy_batch] (0::nat) 0 3
            (toy_params ''Conv4'' ''S2M2_R'') None (Map.empty :: int \<rightharpoonup> nat ckpt))
       = Inl (UnboundLocalError ''rotate_classifier'')"
proof -
  let ?p = "toy_params ''Conv4'' ''S2M2_R''"
  have h1: "p_model ?p \<noteq> ''WideResNet28_10''"
    by (simp add: toy_params_def)
  have h2: "p_model ?p \<noteq> ''ResNet18''"
    by (simp add: toy_params_def)
  have g: "p_method ?p = ''S2M2_R''"
    by (simp add: toy_params_def)
  note t = dispatch_fall_through [OF h1 h2]
  have a: "model_dispatch toy_env ?p = None"
    by (rule t [THEN conjunct1])
  have "main toy_mixup_img toy_rot (\<lambda>_ _. 1 / 2) toy_env [toy_batch] [toy_batch] ?p =
          (Inl (NameError ''model''),
           \<lparr>w_files = e_files toy_env, w_saved = [], w_trained = []\<rparr>)"
    by (rule t [THEN conjunct2, THEN conjunct2, THEN conjunct1, rule_format, OF g])
  then have b: "fst (main toy_mixup_img toy_rot (\<lambda>_ _. 1 / 2) toy_env [toy_batch] [toy_batch] ?p)
                  = Inl (NameError ''model'')"
    by simp
  have "train_rotation toy_rot False [toy_batch] [toy_batch] (0::nat) 0 3 ?p None
          (Map.empty :: int \<rightharpoonup> nat ckpt) =
          (Inl (UnboundLocalError ''rotate_classifier''),
           \<lparr>w_files = Map.empty, w_saved = [], w_trained = []\<rparr>)"
    by (rule t [THEN conjunct2, THEN conjunct2, THEN conjunct2, THEN conjunct2, THEN conjunct1])
  then have c: "fst (train_rotation toy_rot False [toy_batch] [toy_batch] (0::nat) 0 3 ?p None
                  (Map.empty :: int \<rightharpoonup> nat ckpt)) = Inl (UnboundLocalError ''rotate_classifier'')"
    by simp
  from h1 h2 g a b c show ?thesis
    by (intro conjI)
qed

text \<open>
  A model name and a method name that are both unknown: the model variable is unbound, and
  the program ends normally, not on the read of an unbound variable.
\<close>

theorem dispatch_fall_through_counterexample:
  "model_dispatch toy_env (toy_params ''Conv4'' ''baseline'') = None
   \<and> fst (main toy_mixup_img toy_rot (\<lambda>_ _. 1 / 2) toy_env [toy_batch] [toy_batch]
            (toy_params ''Conv4'' ''baseline'')) = Inr NoRun
   \<and> \<not> spec_fails_unbound
         (fst (main toy_mixup_img toy_rot (\<lambda>_ _. 1 / 2) toy_env [toy_batch] [toy_batch]
                 (toy_params ''Conv4'' ''baseline'')))"
proof -
  have a: "model_dispatch toy_env (toy_params ''Conv4'' ''baseline'') = None"
    by (simp add: model_dispatch_def toy_params_def)
  have b: "fst (main toy_mixup_img toy_rot (\<lambda>_ _. 1 / 2) toy_env [toy_batch] [toy_batch]
            (toy_params ''Conv4'' ''baseline'')) = Inr NoRun"
    by (simp add: main_def Let_def toy_params_def)
  have c: "\<not> spec_fails_unbound
         (fst (main toy_mixup_img toy_rot (\<lambda>_ _. 1 / 2) toy_env [toy_batch] [toy_batch]
                 (toy_params ''Conv4'' ''baseline'')))"
    unfolding b by (simp add: spec_fails_unbound_def)
  from a b c show ?thesis
    by (intro conjI)
qed

text \<open>
  C8. Whenever the program runs with the method \<^verbatim>\<open>rotation\<close> (a model name that has a
  backbone, a resume file that loads into it), the entry point gives \<^verbatim>\<open>None\<close> as the saved
  state to the rotation driver: the epochs start from the head that the driver has just
  constructed, of input width 640 or 512, whatever the \<^verbatim>\<open>'rotate'\<close> entry of the resumed
  checkpoint is, while the backbone is the one loaded from that checkpoint and the first
  epoch is the checkpoint's epoch plus one. Had the checkpoint been passed, its \<^verbatim>\<open>'rotate'\<close>
  entry would have been loaded into the head.
\<close>

theorem rotation_head_fresh:
  assumes "p_method params = ''rotation''" and "model_dispatch env params = Some m0"
    and "torch_load (e_files env) (e_resume_file env) = Inr tmp"
    and "e_load_state_dict env
           (if e_use_gpu env \<and> 1 < e_device_count env then e_data_parallel env m0 else m0)
           (ck_state tmp) = Inr m"
  shows "\<exists>h0. rotate_classifier_dispatch rc params = Some h0
       \<and> h0 = rc_new_head rc (if p_model params = ''WideResNet28_10'' then 640 else 512)
       \<and> rotate_classifier_init rc (params\<lparr>p_resume := True\<rparr>) (e_use_gpu env) None = Inr h0
       \<and> main mc rc lams env bl blt params =
           (case rotation_epochs rc bl blt (p_save_freq params) (p_stop_epoch params)
                   (ck_epoch tmp + 1) (m, h0)
                   \<lparr>w_files = e_files env, w_saved = [], w_trained = []\<rparr> of
              (r, w) \<Rightarrow> (and_then r (\<lambda>mh. Inr (RotationRun (fst mh))), w))
       \<and> (\<forall>saved. ck_rotate tmp = Some saved \<longrightarrow>
            rotate_classifier_init rc (params\<lparr>p_resume := True\<rparr>) (e_use_gpu env) (Some tmp)
              = Inr (rc_head_load rc h0 saved))"
proof -
  let ?h0 = "rc_new_head rc (if p_model params = ''WideResNet28_10'' then 640 else 512)"
  have sup: "p_model params = ''WideResNet28_10'' \<or> p_model params = ''ResNet18''"
    using assms(2) by (auto simp: model_dispatch_def split: if_splits)
  then have d: "rotate_classifier_dispatch rc params = Some ?h0"
    by (auto simp: rotate_classifier_dispatch_def)
  then have d': "rotate_classifier_dispatch rc (params\<lparr>p_resume := True\<rparr>) = Some ?h0"
    by simp
  have i: "rotate_classifier_init rc (params\<lparr>p_resume := True\<rparr>) (e_use_gpu env) None = Inr ?h0"
    using d' by (rule rotate_classifier_init_fresh)
  have r: "main mc rc lams env bl blt params =
           (case rotation_epochs rc bl blt (p_save_freq params) (p_stop_epoch params)
                   (ck_epoch tmp + 1) (m, ?h0)
                   \<lparr>w_files = e_files env, w_saved = [], w_trained = []\<rparr> of
              (r, w) \<Rightarrow> (and_then r (\<lambda>mh. Inr (RotationRun (fst mh))), w))"
    unfolding main_rotation [OF assms] train_rotation_def i
    by (simp add: and_then_def split: prod.splits sum.splits)
  have l: "rotate_classifier_init rc (params\<lparr>p_resume := True\<rparr>) (e_use_gpu env) (Some tmp)
              = Inr (rc_head_load rc ?h0 saved)"
    if "ck_rotate tmp = Some saved" for saved
    using d' that by (rule rotate_classifier_init_loaded)
  from d i r l show ?thesis
    by blast
qed

text \<open>
  A resume from a checkpoint of epoch 1 whose \<^verbatim>\<open>'rotate'\<close> entry holds the head 9: the run starts
  at epoch 2 from the backbone 5 of the checkpoint and from the new head 640, not from 9.
\<close>

theorem rotation_head_fresh_witness:
  "p_method (toy_params ''WideResNet28_10'' ''rotation'') = ''rotation''
   \<and> model_dispatch toy_env (toy_params ''WideResNet28_10'' ''rotation'') = Some 0
   \<and> torch_load (e_files toy_env) (e_resume_file toy_env) = Inr toy_ckpt
   \<and> ck_rotate toy_ckpt = Some [''0.weight'' \<mapsto> 9]
   \<and> rc_head_load toy_rot 640 [''0.weight'' \<mapsto> 9] = 9
   \<and> main toy_mixup_img toy_rot (\<lambda>_ _. 1 / 2) toy_env [toy_batch] [toy_batch]
       (toy_params ''WideResNet28_10'' ''rotation'') =
       (case rotation_epochs toy_rot [toy_batch] [toy_batch] 2 3 2 (5, 640)
               \<lparr>w_files = e_files toy_env, w_saved = [], w_trained = []\<rparr> of
          (r, w) \<Rightarrow> (and_then r (\<lambda>mh. Inr (RotationRun (fst mh))), w))"
proof -
  let ?p = "toy_params ''WideResNet28_10'' ''rotation''"
  have h1: "p_method ?p = ''rotation''"
    by (simp add: toy_params_def)
  have h2: "model_dispatch toy_env ?p = Some 0"
    by (simp add: model_dispatch_def toy_params_def toy_env_def)
  have h4: "e_load_state_dict toy_env
              (if e_use_gpu toy_env \<and> 1 < e_device_count toy_env
               then e_data_parallel toy_env 0 else 0) (ck_state toy_ckpt) = Inr 5"
    by (simp add: toy_env_def toy_ckpt_def)
  have k: "ck_rotate toy_ckpt = Some [''0.weight'' \<mapsto> 9]"
    by (simp add: toy_ckpt_def)
  have ld: "rc_head_load toy_rot 640 [''0.weight'' \<mapsto> 9] = 9"
    by (simp add: toy_rot_def)
  have v: "p_model ?p = ''WideResNet28_10''" "p_save_freq ?p = 2" "p_stop_epoch ?p = 3"
    "ck_epoch toy_ckpt + 1 = 2" "rc_new_head toy_rot 640 = 640"
    by (simp_all add: toy_params_def toy_ckpt_def toy_rot_def)
  from rotation_head_fresh [OF h1 h2 toy_load h4, of toy_rot toy_mixup_img "\<lambda>_ _. 1 / 2"
      "[toy_batch]" "[toy_batch]"]
  have r: "main toy_mixup_img toy_rot (\<lambda>_ _. 1 / 2) toy_env [toy_batch] [toy_batch] ?p =
       (case rotation_epochs toy_rot [toy_batch] [toy_batch] 2 3 2 (5, 640)
               \<lparr>w_files = e_files toy_env, w_saved = [], w_trained = []\<rparr> of
          (r, w) \<Rightarrow> (and_then r (\<lambda>mh. Inr (RotationRun (fst mh))), w))"
    by (elim exE conjE) (simp add: v)
  from h1 h2 toy_load k ld r show ?thesis
    by (intro conjI)
qed

end
